theory Spec2Isabelle
  imports Complex_Main
begin

section \<open>Arrays, errors and the array library the scripts call\<close>

text \<open>
  The three scripts (\<^verbatim>\<open>death_model.py\<close>, \<^verbatim>\<open>geo_model.py\<close>, \<^verbatim>\<open>pk_model.py\<close>) load
  numeric text files, transform them with a handful of array operations and hand the
  results to plotting calls. Array elements are modelled as real numbers (the
  arithmetic of the floating-point library is idealised), an array is 0-, 1- or
  2-dimensional as the loader can return it, and every exception the scripts can raise
  is a value of \<open>error\<close>.
\<close>

datatype error = OSError | ValueError | IndexError | AxisError

datatype 'a ndarray = Arr0 'a | Arr1 "'a list" | Arr2 "'a list list"

fun bind_err :: "error + 'a \<Rightarrow> ('a \<Rightarrow> error + 'b) \<Rightarrow> error + 'b" where
  "bind_err (Inl e) f = Inl e"
| "bind_err (Inr x) f = f x"

definition ncols :: "'a list list \<Rightarrow> nat" where
  "ncols rows = (case rows of [] \<Rightarrow> 0 | r # _ \<Rightarrow> length r)"

definition rect :: "'a list list \<Rightarrow> bool" where
  "rect rows = list_all (\<lambda>r. length r = ncols rows) rows"

text \<open>\<^verbatim>\<open>np.shape(a)\<close>: the tuple of dimensions.\<close>

fun np_shape :: "'a ndarray \<Rightarrow> nat list" where
  "np_shape (Arr0 v) = []"
| "np_shape (Arr1 xs) = [length xs]"
| "np_shape (Arr2 rows) = [length rows, ncols rows]"

text \<open>Indexing a tuple or a list, \<^verbatim>\<open>t[i]\<close> with \<open>i \<ge> 0\<close>: out of range raises.\<close>

definition item :: "'a list \<Rightarrow> nat \<Rightarrow> error + 'a" where
  "item xs i = (if i < length xs then Inr (xs ! i) else Inl IndexError)"

text \<open>\<^verbatim>\<open>np.size(a)\<close>: the number of elements.\<close>

fun np_size :: "'a ndarray \<Rightarrow> nat" where
  "np_size (Arr0 v) = 1"
| "np_size (Arr1 xs) = length xs"
| "np_size (Arr2 rows) = length rows * ncols rows"

text \<open>\<^verbatim>\<open>a[i]\<close> on an array, \<open>i \<ge> 0\<close>: a row of a matrix, an element of a vector.\<close>

fun index0 :: "'a ndarray \<Rightarrow> nat \<Rightarrow> error + 'a ndarray" where
  "index0 (Arr0 v) i = Inl IndexError"
| "index0 (Arr1 xs) i = (if i < length xs then Inr (Arr0 (xs ! i)) else Inl IndexError)"
| "index0 (Arr2 rows) i = (if i < length rows then Inr (Arr1 (rows ! i)) else Inl IndexError)"

text \<open>\<^verbatim>\<open>a[:,j]\<close> with \<open>j \<ge> 0\<close>: only a 2-dimensional array takes two indices.\<close>

fun column :: "'a ndarray \<Rightarrow> nat \<Rightarrow> error + 'a list" where
  "column (Arr2 rows) j = (if j < ncols rows then Inr (map (\<lambda>r. r ! j) rows) else Inl IndexError)"
| "column a j = Inl IndexError"

text \<open>\<^verbatim>\<open>a[:,-1]\<close>: the last column.\<close>

fun last_column :: "'a ndarray \<Rightarrow> error + 'a list" where
  "last_column (Arr2 rows) =
     (if 0 < ncols rows then Inr (map (\<lambda>r. r ! (ncols rows - 1)) rows) else Inl IndexError)"
| "last_column a = Inl IndexError"

text \<open>
  \<^verbatim>\<open>np.loadtxt(path)\<close>. A file is the list of its non-blank lines, each the list of its
  numeric fields. A missing file and rows of different lengths raise; the result is
  squeezed (the default \<^verbatim>\<open>ndmin=0\<close>): a one-row or one-column file gives a vector, a
  single number gives a 0-dimensional array, an empty file gives the empty vector.
\<close>

type_synonym files = "string \<Rightarrow> real list list option"

definition squeeze :: "real list list \<Rightarrow> real ndarray" where
  "squeeze rows =
     (case rows of
        [] \<Rightarrow> Arr1 []
      | [r] \<Rightarrow> (case r of [v] \<Rightarrow> Arr0 v | _ \<Rightarrow> Arr1 r)
      | _ \<Rightarrow> (if ncols rows = 1 then Arr1 (map hd rows) else Arr2 rows))"

definition loadtxt :: "files \<Rightarrow> string \<Rightarrow> error + real ndarray" where
  "loadtxt fs path =
     (case fs path of
        None \<Rightarrow> Inl OSError
      | Some rows \<Rightarrow>
          (if list_ex (\<lambda>r. r = []) rows \<or> \<not> rect rows then Inl ValueError
           else Inr (squeeze rows)))"

text \<open>
  \<^verbatim>\<open>np.linspace(start, stop, num)\<close> (endpoint included): \<open>num\<close> samples, sample \<open>i\<close> at
  \<open>start + i * step\<close> with \<open>step = (stop - start) / (num - 1)\<close>, and the last sample
  set to \<open>stop\<close> when \<open>num > 1\<close>; a single sample is \<open>start\<close>.
\<close>

definition np_linspace :: "real \<Rightarrow> real \<Rightarrow> nat \<Rightarrow> real list" where
  "np_linspace start stop num =
     (if num = 0 then []
      else if num = 1 then [start]
      else map (\<lambda>i. start + real i * ((stop - start) / real (num - 1))) [0..<num - 1] @ [stop])"

fun np_transpose :: "'a ndarray \<Rightarrow> 'a ndarray" where
  "np_transpose (Arr2 rows) = Arr2 (map (\<lambda>j. map (\<lambda>r. r ! j) rows) [0..<ncols rows])"
| "np_transpose a = a"

section \<open>Rescaled x-axes of the trace figures\<close>

text \<open>
  \<^verbatim>\<open>pk_model.py\<close>, figure 3:
  \<^verbatim>\<open>x_ace18 = np.linspace(0,18700000, np.shape(ace18)[1])\<close> and the same for
  \<^verbatim>\<open>sgd18\<close>.
\<close>

definition x_ace18 :: "real ndarray \<Rightarrow> error + real list" where
  "x_ace18 ace18 = bind_err (item (np_shape ace18) 1) (\<lambda>n. Inr (np_linspace 0 18700000 n))"

definition x_sgd18 :: "real ndarray \<Rightarrow> error + real list" where
  "x_sgd18 sgd18 = bind_err (item (np_shape sgd18) 1) (\<lambda>n. Inr (np_linspace 0 18700000 n))"

text \<open>
  \<^verbatim>\<open>pk_model.py\<close>, figure 5:
  \<^verbatim>\<open>x_sgd1_first100k = np.linspace(0,100000, np.shape(sgd1_first100k)[1])\<close>,
  \<^verbatim>\<open>x_sgd1 = np.linspace(0, 18700000, np.shape(sgd1)[1])\<close> and the same for
  \<^verbatim>\<open>sgd10\<close> and \<^verbatim>\<open>sgd100\<close>.
\<close>

definition x_sgd1_first100k :: "real ndarray \<Rightarrow> error + real list" where
  "x_sgd1_first100k sgd1_first100k =
     bind_err (item (np_shape sgd1_first100k) 1) (\<lambda>n. Inr (np_linspace 0 100000 n))"

definition x_sgd1 :: "real ndarray \<Rightarrow> error + real list" where
  "x_sgd1 sgd1 = bind_err (item (np_shape sgd1) 1) (\<lambda>n. Inr (np_linspace 0 18700000 n))"

definition x_sgd10 :: "real ndarray \<Rightarrow> error + real list" where
  "x_sgd10 sgd10 = bind_err (item (np_shape sgd10) 1) (\<lambda>n. Inr (np_linspace 0 18700000 n))"

definition x_sgd100 :: "real ndarray \<Rightarrow> error + real list" where
  "x_sgd100 sgd100 = bind_err (item (np_shape sgd100) 1) (\<lambda>n. Inr (np_linspace 0 18700000 n))"

text \<open>
  A vector divided by a number, as in \<^verbatim>\<open>x_sgd10/10\<close> and \<^verbatim>\<open>x_sgd100/100\<close>: every
  element is divided.
\<close>

definition np_divide :: "real list \<Rightarrow> real \<Rightarrow> real list" where
  "np_divide x k = map (\<lambda>v. v / k) x"

text \<open>
  \<^verbatim>\<open>geo_model.py\<close>:
  \<^verbatim>\<open>x_sgd = np.linspace(0,50000, np.size(tr_sgd[0]))\<close> and
  \<^verbatim>\<open>x_ace = np.linspace(0,85000, np.size(tr_ace[0]))\<close>.
\<close>

definition x_sgd :: "real ndarray \<Rightarrow> error + real list" where
  "x_sgd tr_sgd = bind_err (index0 tr_sgd 0) (\<lambda>r. Inr (np_linspace 0 50000 (np_size r)))"

definition x_ace :: "real ndarray \<Rightarrow> error + real list" where
  "x_ace tr_ace = bind_err (index0 tr_ace 0) (\<lambda>r. Inr (np_linspace 0 85000 (np_size r)))"

text \<open>
  A coordinate vector interpolates linearly from 0 to \<open>tot\<close> over \<open>n\<close> columns.
\<close>

definition interpolates :: "real \<Rightarrow> nat \<Rightarrow> real list \<Rightarrow> bool" where
  "interpolates tot n xs =
     (length xs = n \<and> xs ! 0 = 0 \<and> xs ! (n - 1) = tot \<and>
      (\<forall>i < n. xs ! i = real i * tot / real (n - 1)))"

section \<open>Line plots and the trace figures\<close>

text \<open>
  A drawn line: its coordinates, its colour and its opacity (\<open>None\<close> when the call gives
  no \<^verbatim>\<open>alpha\<close>, which draws the line opaque).
\<close>

record line2d =
  xdata :: "real list"
  ydata :: "real list"
  color :: string
  alpha :: "real option"

text \<open>
  \<^verbatim>\<open>plt.plot(x, y, color=c, alpha=a)\<close> with a vector \<open>x\<close>: against a matrix \<open>y\<close> it
  draws one line per column of \<open>y\<close>, and the length of \<open>x\<close> must be the number of rows
  of \<open>y\<close>; against a vector it draws one line. The opacity is \<open>None\<close> when the call
  gives none.
\<close>

fun plot_xy :: "real list \<Rightarrow> real ndarray \<Rightarrow> string \<Rightarrow> real option \<Rightarrow> error + line2d list" where
  "plot_xy x (Arr2 rows) c a =
     (if length x \<noteq> length rows then Inl ValueError
      else Inr (map (\<lambda>j. \<lparr>xdata = x, ydata = map (\<lambda>r. r ! j) rows, color = c, alpha = a\<rparr>)
                  [0..<ncols rows]))"
| "plot_xy x (Arr1 ys) c a =
     (if length x \<noteq> length ys then Inl ValueError
      else Inr [\<lparr>xdata = x, ydata = ys, color = c, alpha = a\<rparr>])"
| "plot_xy x (Arr0 v) c a =
     (if length x \<noteq> 1 then Inl ValueError
      else Inr [\<lparr>xdata = x, ydata = [v], color = c, alpha = a\<rparr>])"

text \<open>
  \<^verbatim>\<open>plt.plot(y, color=c)\<close>: no x is given, so the x-coordinates are the indices
  \<open>0, 1, ...\<close> of the samples, and no opacity is given.
\<close>

fun plot_y :: "real ndarray \<Rightarrow> string \<Rightarrow> line2d list" where
  "plot_y (Arr2 rows) c =
     map (\<lambda>j. \<lparr>xdata = map real [0..<length rows], ydata = map (\<lambda>r. r ! j) rows,
                color = c, alpha = None\<rparr>) [0..<ncols rows]"
| "plot_y (Arr1 ys) c = [\<lparr>xdata = map real [0..<length ys], ydata = ys, color = c, alpha = None\<rparr>]"
| "plot_y (Arr0 v) c = [\<lparr>xdata = [0], ydata = [v], color = c, alpha = None\<rparr>]"

text \<open>A \<^verbatim>\<open>for\<close> loop whose body draws: the first exception ends it.\<close>

fun collect :: "('i \<Rightarrow> error + 'a list) \<Rightarrow> 'i list \<Rightarrow> error + 'a list" where
  "collect f [] = Inr []"
| "collect f (i # is) =
     bind_err (f i) (\<lambda>ls. bind_err (collect f is) (\<lambda>rest. Inr (ls @ rest)))"

text \<open>
  \<^verbatim>\<open>pk_model.py\<close>, figure 3:
  \<^verbatim>\<open>plt.plot(x_ace18, np.transpose(ace18), color=Acol, alpha=0.2)\<close> and
  \<^verbatim>\<open>plt.plot(x_sgd18, np.transpose(sgd18), color=Scol, alpha=0.1)\<close>.
\<close>

definition trace_ace18 :: "string \<Rightarrow> real ndarray \<Rightarrow> error + line2d list" where
  "trace_ace18 Acol ace18 =
     bind_err (x_ace18 ace18) (\<lambda>x. plot_xy x (np_transpose ace18) Acol (Some (2 / 10)))"

definition trace_sgd18 :: "string \<Rightarrow> real ndarray \<Rightarrow> error + line2d list" where
  "trace_sgd18 Scol sgd18 =
     bind_err (x_sgd18 sgd18) (\<lambda>x. plot_xy x (np_transpose sgd18) Scol (Some (1 / 10)))"

text \<open>
  \<^verbatim>\<open>geo_model.py\<close>, the trace plot:
  \<^verbatim>\<open>plt.plot(x_sgd, np.transpose(tr_sgd), color=Scol, alpha = 0.05)\<close> and
  \<^verbatim>\<open>plt.plot(x_ace, np.transpose(tr_ace), color=Acol, alpha = 0.05)\<close>.
\<close>

definition trace_sgd :: "string \<Rightarrow> real ndarray \<Rightarrow> error + line2d list" where
  "trace_sgd Scol tr_sgd =
     bind_err (x_sgd tr_sgd) (\<lambda>x. plot_xy x (np_transpose tr_sgd) Scol (Some (5 / 100)))"

definition trace_ace :: "string \<Rightarrow> real ndarray \<Rightarrow> error + line2d list" where
  "trace_ace Acol tr_ace =
     bind_err (x_ace tr_ace) (\<lambda>x. plot_xy x (np_transpose tr_ace) Acol (Some (5 / 100)))"

text \<open>
  \<^verbatim>\<open>pk_model.py\<close>, figure 5, the six subplots 231 to 236, with \<open>col\<close> the colour
  cycle read at the start of the script:
  \<^verbatim>\<open>plt.plot(x_sgd1_first100k, sgd1_first100k.T, color=col[0], alpha=0.2)\<close>,
  \<^verbatim>\<open>plt.plot(x_sgd10/10, sgd10.T, color=col[3], alpha=0.2)\<close>,
  \<^verbatim>\<open>plt.plot(x_sgd100/100, sgd100.T, color=col[6], alpha=0.2)\<close>,
  \<^verbatim>\<open>plt.plot(x_sgd1, sgd1.T, color=col[0], alpha=0.2)\<close>,
  \<^verbatim>\<open>plt.plot(x_sgd10, sgd10.T, color=col[3], alpha=0.2)\<close>,
  \<^verbatim>\<open>plt.plot(x_sgd100, sgd100.T, color=col[6], alpha=0.2)\<close>.
\<close>

definition subplot_231 :: "string list \<Rightarrow> real ndarray \<Rightarrow> error + line2d list" where
  "subplot_231 col sgd1_first100k =
     bind_err (x_sgd1_first100k sgd1_first100k) (\<lambda>x.
     bind_err (item col 0) (\<lambda>c. plot_xy x (np_transpose sgd1_first100k) c (Some (2 / 10))))"

definition subplot_232 :: "string list \<Rightarrow> real ndarray \<Rightarrow> error + line2d list" where
  "subplot_232 col sgd10 =
     bind_err (x_sgd10 sgd10) (\<lambda>x.
     bind_err (item col 3) (\<lambda>c.
       plot_xy (np_divide x 10) (np_transpose sgd10) c (Some (2 / 10))))"

definition subplot_233 :: "string list \<Rightarrow> real ndarray \<Rightarrow> error + line2d list" where
  "subplot_233 col sgd100 =
     bind_err (x_sgd100 sgd100) (\<lambda>x.
     bind_err (item col 6) (\<lambda>c.
       plot_xy (np_divide x 100) (np_transpose sgd100) c (Some (2 / 10))))"

definition subplot_234 :: "string list \<Rightarrow> real ndarray \<Rightarrow> error + line2d list" where
  "subplot_234 col sgd1 =
     bind_err (x_sgd1 sgd1) (\<lambda>x.
     bind_err (item col 0) (\<lambda>c. plot_xy x (np_transpose sgd1) c (Some (2 / 10))))"

definition subplot_235 :: "string list \<Rightarrow> real ndarray \<Rightarrow> error + line2d list" where
  "subplot_235 col sgd10 =
     bind_err (x_sgd10 sgd10) (\<lambda>x.
     bind_err (item col 3) (\<lambda>c. plot_xy x (np_transpose sgd10) c (Some (2 / 10))))"

definition subplot_236 :: "string list \<Rightarrow> real ndarray \<Rightarrow> error + line2d list" where
  "subplot_236 col sgd100 =
     bind_err (x_sgd100 sgd100) (\<lambda>x.
     bind_err (item col 6) (\<lambda>c. plot_xy x (np_transpose sgd100) c (Some (2 / 10))))"

text \<open>
  \<^verbatim>\<open>death_model.py\<close>, figure 1b:
  \<^verbatim>\<open>for i in range(11): plt.plot(design_traces[i], color = col[i%6+1])\<close>,
  with \<open>col\<close> the colour cycle read at the start of the script.
\<close>

definition design_trace :: "string list \<Rightarrow> real ndarray \<Rightarrow> nat \<Rightarrow> error + line2d list" where
  "design_trace col design_traces i =
     bind_err (index0 design_traces i) (\<lambda>y.
     bind_err (item col (i mod 6 + 1)) (\<lambda>c. Inr (plot_y y c)))"

definition fig1b :: "string list \<Rightarrow> real ndarray \<Rightarrow> error + line2d list" where
  "fig1b col design_traces = collect (design_trace col design_traces) [0..<11]"

text \<open>
  What the trace overlay is said to draw: one line per row of the matrix, carrying that
  row, at an opacity below 1, all lines in one colour, against the x-axis that
  interpolates from 0 to \<open>tot\<close>.
\<close>

definition trace_overlay :: "real \<Rightarrow> real list list \<Rightarrow> line2d list \<Rightarrow> bool" where
  "trace_overlay tot rows ls =
     (length ls = length rows \<and>
      list_all (\<lambda>k. ydata (ls ! k) = rows ! k \<and>
                     interpolates tot (ncols rows) (xdata (ls ! k)) \<and>
                     (case alpha (ls ! k) of None \<Rightarrow> False | Some a \<Rightarrow> a < 1) \<and>
                     color (ls ! k) = color (ls ! 0)) [0..<length rows])"

definition renders_overlay :: "real \<Rightarrow> real list list \<Rightarrow> error + line2d list \<Rightarrow> bool" where
  "renders_overlay tot rows res =
     (case res of Inl e \<Rightarrow> False | Inr ls \<Rightarrow> trace_overlay tot rows ls)"

section \<open>Boxplots\<close>

text \<open>
  \<^verbatim>\<open>plt.boxplot(vectors, patch_artist = True)\<close> returns, under \<^verbatim>\<open>'boxes'\<close>, one patch
  per vector, in order; a patch is drawn from its vector and starts with the default
  face colour.
\<close>

record patch =
  drawn_from :: "real list"
  facecolor :: string

definition boxplot :: "string \<Rightarrow> real list list \<Rightarrow> patch list" where
  "boxplot dflt vectors = map (\<lambda>v. \<lparr>drawn_from = v, facecolor = dflt\<rparr>) vectors"

text \<open>
  \<^verbatim>\<open>for patch, color in zip(bp['boxes'], bp_cols): patch.set_facecolor(color)\<close>:
  the loop ends with the shorter of the two lists.
\<close>

fun set_facecolors :: "patch list \<Rightarrow> string list \<Rightarrow> patch list" where
  "set_facecolors (p # ps) (c # cs) = p\<lparr>facecolor := c\<rparr> # set_facecolors ps cs"
| "set_facecolors ps [] = ps"
| "set_facecolors [] cs = []"

text \<open>
  The colours of the scripts: \<^verbatim>\<open>Scol = col[0]; Acol = col[3]; Mcol = col[6]; Mcol2 = col[5]\<close>
  and the two colour lists \<^verbatim>\<open>bp_cols\<close>.
\<close>

record method_colors =
  Scol :: string
  Acol :: string
  Mcol :: string
  Mcol2 :: string

definition pk_colors :: "string list \<Rightarrow> error + method_colors" where
  "pk_colors col =
     bind_err (item col 0) (\<lambda>s. bind_err (item col 3) (\<lambda>a.
     bind_err (item col 6) (\<lambda>m. bind_err (item col 5) (\<lambda>m2.
       Inr \<lparr>Scol = s, Acol = a, Mcol = m, Mcol2 = m2\<rparr>))))"

definition pk_bp_cols :: "method_colors \<Rightarrow> string list" where
  "pk_bp_cols mc = [Mcol2 mc, Mcol mc, Scol mc, Acol mc, Mcol2 mc, Mcol mc, Scol mc, Acol mc,
                    ''lightsteelblue'']"

definition geo_bp_cols :: "string \<Rightarrow> string \<Rightarrow> string list" where
  "geo_bp_cols S A = [S, A]"

text \<open>
  \<^verbatim>\<open>pk_model.py\<close>, figure 2, and \<^verbatim>\<open>geo_model.py\<close>, figure 7a: the boxes after the
  colouring loop.
\<close>

definition pk_boxes :: "string \<Rightarrow> method_colors \<Rightarrow> real list list \<Rightarrow> patch list" where
  "pk_boxes dflt mc vectors = set_facecolors (boxplot dflt vectors) (pk_bp_cols mc)"

definition geo_boxes :: "string \<Rightarrow> string \<Rightarrow> string \<Rightarrow> real list list \<Rightarrow> patch list" where
  "geo_boxes dflt S A vectors = set_facecolors (boxplot dflt vectors) (geo_bp_cols S A)"

section \<open>The returned-designs scatter figures\<close>

text \<open>
  \<^verbatim>\<open>np.arange(a, b)\<close>, \<^verbatim>\<open>np.repeat(xs, n)\<close> (each element \<open>n\<close> times, in order),
  \<^verbatim>\<open>.reshape((r, c))\<close> (row-major, the size must fit) and \<^verbatim>\<open>np.ravel\<close> (row-major
  flattening).
\<close>

definition np_arange :: "nat \<Rightarrow> nat \<Rightarrow> real list" where
  "np_arange a b = map real [a..<b]"

definition np_repeat :: "'a list \<Rightarrow> nat \<Rightarrow> 'a list" where
  "np_repeat xs n = concat (map (replicate n) xs)"

definition np_reshape :: "'a list \<Rightarrow> nat \<Rightarrow> nat \<Rightarrow> error + 'a ndarray" where
  "np_reshape xs r c =
     (if length xs \<noteq> r * c then Inl ValueError
      else Inr (Arr2 (map (\<lambda>i. take c (drop (i * c) xs)) [0..<r])))"

fun np_ravel :: "'a ndarray \<Rightarrow> 'a list" where
  "np_ravel (Arr0 v) = [v]"
| "np_ravel (Arr1 xs) = xs"
| "np_ravel (Arr2 rows) = concat rows"

text \<open>
  \<^verbatim>\<open>pk_model.py\<close>, line 89, the variable \<^verbatim>\<open>x\<close>:
  \<^verbatim>\<open>x = np.repeat(np.arange(1,16),100).reshape((15,100)).transpose()\<close>.
\<close>

definition x_index :: "error + real ndarray" where
  "x_index = bind_err (np_reshape (np_repeat (np_arange 1 16) 100) 15 100)
               (\<lambda>m. Inr (np_transpose m))"

text \<open>
  \<^verbatim>\<open>plt.scatter(x, y)\<close> flattens both arguments and pairs them in order; it raises when
  they differ in size.
\<close>

definition plt_scatter :: "real ndarray \<Rightarrow> real ndarray \<Rightarrow> error + (real \<times> real) list" where
  "plt_scatter x y =
     (if np_size x \<noteq> np_size y then Inl ValueError
      else Inr (zip (np_ravel x) (np_ravel y)))"

text \<open>
  \<^verbatim>\<open>d > 8\<close> compares elementwise; \<^verbatim>\<open>np.sum(b, 0)\<close> counts the true entries along the
  first axis: per column of a matrix, over a whole vector, and a 0-dimensional array has
  no axis 0.
\<close>

fun np_gt :: "real ndarray \<Rightarrow> real \<Rightarrow> bool ndarray" where
  "np_gt (Arr0 v) t = Arr0 (t < v)"
| "np_gt (Arr1 xs) t = Arr1 (map (\<lambda>v. t < v) xs)"
| "np_gt (Arr2 rows) t = Arr2 (map (map (\<lambda>v. t < v)) rows)"

fun np_sum0 :: "bool ndarray \<Rightarrow> error + nat ndarray" where
  "np_sum0 (Arr0 b) = Inl AxisError"
| "np_sum0 (Arr1 bs) = Inr (Arr0 (length (filter (\<lambda>b. b) bs)))"
| "np_sum0 (Arr2 rows) =
     Inr (Arr1 (map (\<lambda>j. length (filter (\<lambda>r. r ! j) rows)) [0..<ncols rows]))"

text \<open>\<^verbatim>\<open>num_at_8_2 = np.sum(d_s18m>8,0)\<close> (and the same line for \<^verbatim>\<open>d2_s18m\<close>).\<close>

definition num_at_8_2 :: "real ndarray \<Rightarrow> error + nat ndarray" where
  "num_at_8_2 d = np_sum0 (np_gt d 8)"

text \<open>
  The labelling loop:
  \<^verbatim>\<open>for i in range(15):\<close>
  \<^verbatim>\<open>    if(i%2==0): plt.text(i+0.7,9.5,num_at_8_2[i], fontsize=8, color=Scol)\<close>
  \<^verbatim>\<open>    else:       plt.text(i+0.7,6.2,num_at_8_2[i], fontsize=8, color=Scol)\<close>
\<close>

record text_label =
  at_x :: real
  at_y :: real
  shown :: "nat ndarray"
  text_color :: string

definition label_at :: "string \<Rightarrow> nat ndarray \<Rightarrow> nat \<Rightarrow> error + text_label list" where
  "label_at scol num i =
     (if i mod 2 = 0
      then bind_err (index0 num i) (\<lambda>s.
             Inr [\<lparr>at_x = real i + 7 / 10, at_y = 95 / 10, shown = s, text_color = scol\<rparr>])
      else bind_err (index0 num i) (\<lambda>s.
             Inr [\<lparr>at_x = real i + 7 / 10, at_y = 62 / 10, shown = s, text_color = scol\<rparr>]))"

definition count_labels :: "string \<Rightarrow> nat ndarray \<Rightarrow> error + text_label list" where
  "count_labels scol num = collect (label_at scol num) [0..<15]"

text \<open>
  Subfigures 4a and 4d: the scatter of the designs against \<^verbatim>\<open>x\<close>, the counts, the
  labels. Subfigures 4b, 4c, 4e and 4f have the scatter only.
\<close>

record panel =
  points :: "(real \<times> real) list"
  labels :: "text_label list"

definition panel_4a :: "string \<Rightarrow> real ndarray \<Rightarrow> error + panel" where
  "panel_4a scol d_s18m =
     bind_err x_index (\<lambda>x.
     bind_err (plt_scatter x d_s18m) (\<lambda>pts.
     bind_err (num_at_8_2 d_s18m) (\<lambda>num.
     bind_err (count_labels scol num) (\<lambda>ls.
       Inr \<lparr>points = pts, labels = ls\<rparr>))))"

definition panel_4d :: "string \<Rightarrow> real ndarray \<Rightarrow> error + panel" where
  "panel_4d scol d2_s18m =
     bind_err x_index (\<lambda>x.
     bind_err (plt_scatter x d2_s18m) (\<lambda>pts.
     bind_err (num_at_8_2 d2_s18m) (\<lambda>num.
     bind_err (count_labels scol num) (\<lambda>ls.
       Inr \<lparr>points = pts, labels = ls\<rparr>))))"

definition panel_plain :: "real ndarray \<Rightarrow> error + panel" where
  "panel_plain d =
     bind_err x_index (\<lambda>x.
     bind_err (plt_scatter x d) (\<lambda>pts. Inr \<lparr>points = pts, labels = []\<rparr>))"

section \<open>The parameter sweep and the utility surface\<close>

text \<open>
  \<^verbatim>\<open>geo_model.py\<close>, lines 60 to 71. The directory listing is the list \<^verbatim>\<open>files\<close> that
  \<^verbatim>\<open>os.listdir\<close> returned, in its order. Each pass of the loop loads one file, draws the
  scatter of its columns 0 and 1 and shows the figure; an exception ends the script, and
  the figures shown before it stay shown.
\<close>

record figure =
  fig_points :: "(real \<times> real) list"
  xlim :: "real \<times> real"
  ylim :: "real \<times> real"
  xticks :: "real list"
  yticks :: "real list"

definition sweep_dir :: string where
  "sweep_dir = ''../data/geo_model/change_l_gamma/''"

definition sweep_figure :: "files \<Rightarrow> string \<Rightarrow> error + figure" where
  "sweep_figure fs name =
     bind_err (loadtxt fs (sweep_dir @ name)) (\<lambda>x.
     bind_err (column x 0) (\<lambda>x0.
     bind_err (column x 1) (\<lambda>x1.
     bind_err (plt_scatter (Arr1 x0) (Arr1 x1)) (\<lambda>pts.
       Inr \<lparr>fig_points = pts, xlim = (- (55 / 100), 55 / 100),
            ylim = (- (55 / 100), 55 / 100), xticks = [], yticks = []\<rparr>))))"

fun sweep :: "files \<Rightarrow> string list \<Rightarrow> figure list \<times> error option" where
  "sweep fs [] = ([], None)"
| "sweep fs (name # names) =
     (case sweep_figure fs name of
        Inl e \<Rightarrow> ([], Some e)
      | Inr fig \<Rightarrow> (case sweep fs names of (figs, r) \<Rightarrow> (fig # figs, r)))"

text \<open>
  \<^verbatim>\<open>death_model.py\<close>, figure 1a: the file is loaded, the vertical line takes \<^verbatim>\<open>col[0]\<close>,
  and \<^verbatim>\<open>plt.plot(util_surf[:,0], util_surf[:,1], color = col[3])\<close> draws the curve.
\<close>

definition fig1a :: "string list \<Rightarrow> files \<Rightarrow> error + line2d list" where
  "fig1a col fs =
     bind_err (loadtxt fs ''../data/death_model/simpledeath_1d_util.txt'') (\<lambda>util_surf.
     bind_err (item col 0) (\<lambda>c0.
     bind_err (column util_surf 0) (\<lambda>u0.
     bind_err (column util_surf 1) (\<lambda>u1.
     bind_err (item col 3) (\<lambda>c3. plot_xy u0 (Arr1 u1) c3 None)))))"

text \<open>The colour cycle of the plotting library when the user configures none.\<close>

definition default_cycle :: "string list" where
  "default_cycle = [''#1f77b4'', ''#ff7f0e'', ''#2ca02c'', ''#d62728'', ''#9467bd'',
                    ''#8c564b'', ''#e377c2'', ''#7f7f7f'', ''#bcbd22'', ''#17becf'']"

section \<open>The transformed data of a run\<close>

text \<open>
  The rescaled x-axes and the threshold counts that a run of \<^verbatim>\<open>pk_model.py\<close> and of
  \<^verbatim>\<open>geo_model.py\<close> computes, each from the file the script loads for it. The file read
  into \<^verbatim>\<open>sgd18\<close> is read again into \<^verbatim>\<open>sgd1\<close>.
\<close>

definition pk_inputs :: "string list" where
  "pk_inputs = [''../data/pk_model/ace_trace_18m.txt'',
                ''../data/pk_model/sgd_m1_trace_18m.txt'',
                ''../data/pk_model/sgd_m1_trace_first100k.txt'',
                ''../data/pk_model/sgd_m10_trace_18m.txt'',
                ''../data/pk_model/sgd_m100_trace_18m.txt'',
                ''../data/pk_model/sgd_designs_18m.txt'',
                ''../data/pk_model/sgd_designs_ph2_18m.txt'']"

definition pk_x_axes :: "files \<Rightarrow> (error + real list) list" where
  "pk_x_axes fs =
     [bind_err (loadtxt fs ''../data/pk_model/ace_trace_18m.txt'') x_ace18,
      bind_err (loadtxt fs ''../data/pk_model/sgd_m1_trace_18m.txt'') x_sgd18,
      bind_err (loadtxt fs ''../data/pk_model/sgd_m1_trace_first100k.txt'') x_sgd1_first100k,
      bind_err (loadtxt fs ''../data/pk_model/sgd_m1_trace_18m.txt'') x_sgd1,
      bind_err (loadtxt fs ''../data/pk_model/sgd_m10_trace_18m.txt'') x_sgd10,
      bind_err (loadtxt fs ''../data/pk_model/sgd_m100_trace_18m.txt'') x_sgd100]"

definition pk_counts :: "files \<Rightarrow> (error + nat ndarray) list" where
  "pk_counts fs =
     [bind_err (loadtxt fs ''../data/pk_model/sgd_designs_18m.txt'') num_at_8_2,
      bind_err (loadtxt fs ''../data/pk_model/sgd_designs_ph2_18m.txt'') num_at_8_2]"

definition geo_inputs :: "string list" where
  "geo_inputs = [''../data/geo_model/sgd_traces.txt'', ''../data/geo_model/ace_traces.txt'']"

definition geo_x_axes :: "files \<Rightarrow> (error + real list) list" where
  "geo_x_axes fs =
     [bind_err (loadtxt fs ''../data/geo_model/sgd_traces.txt'') x_sgd,
      bind_err (loadtxt fs ''../data/geo_model/ace_traces.txt'') x_ace]"

section \<open>The arrays in memory\<close>

text \<open>
  To speak of an array being changed, the arrays of floats are placed in a store: a
  cell per array, the cells below \<open>used\<close> taken. An array object is a reference to a
  cell, read as it is or transposed: \<^verbatim>\<open>np.transpose\<close> and \<^verbatim>\<open>.T\<close> return a view that
  shares the cell of their argument. \<^verbatim>\<open>np.loadtxt\<close> and \<^verbatim>\<open>np.linspace\<close> return a new
  array, in a new cell. The comparison \<^verbatim>\<open>d > 8\<close> and \<^verbatim>\<open>np.sum\<close> return new arrays of
  booleans and of counts, which are values outside this store; \<^verbatim>\<open>np.shape\<close>,
  \<^verbatim>\<open>plt.plot\<close> and \<^verbatim>\<open>plt.scatter\<close> read their arguments.
\<close>

record heap =
  cells :: "nat \<Rightarrow> real ndarray"
  used :: nat

record aref =
  addr :: nat
  transposed :: bool

definition alloc :: "real ndarray \<Rightarrow> heap \<Rightarrow> aref \<times> heap" where
  "alloc a h = (\<lparr>addr = used h, transposed = False\<rparr>,
                \<lparr>cells = (cells h)(used h := a), used = used h + 1\<rparr>)"

definition fetch :: "heap \<Rightarrow> aref \<Rightarrow> real ndarray" where
  "fetch h r = (if transposed r then np_transpose (cells h (addr r)) else cells h (addr r))"


definition load :: "files \<Rightarrow> string \<Rightarrow> heap \<Rightarrow> error + aref \<times> heap" where
  "load fs path h = bind_err (loadtxt fs path) (\<lambda>a. Inr (alloc a h))"



section \<open>Properties of the rescaled x-axes\<close>

lemma length_np_linspace: "length (np_linspace a b n) = n"
  by (simp add: np_linspace_def)

lemma np_linspace_nth:
  assumes "2 \<le> n" and "i < n"
  shows "np_linspace a b n ! i = a + real i * (b - a) / real (n - 1)"
proof (cases "i = n - 1")
  case True
  have "np_linspace a b n ! (n - 1) = b"
    using assms(1) by (simp add: np_linspace_def nth_append)
  moreover have "a + real (n - 1) * (b - a) / real (n - 1) = b"
    using assms(1) by simp
  ultimately show ?thesis using True by simp
next
  case False
  with assms have "i < n - 1" by simp
  then show ?thesis
    using assms(1) by (simp add: np_linspace_def nth_append)
qed

lemma np_linspace_interpolates:
  assumes "2 \<le> n"
  shows "interpolates tot n (np_linspace 0 tot n)"
proof -
  have nth: "\<forall>i < n. np_linspace 0 tot n ! i = real i * tot / real (n - 1)"
    using np_linspace_nth [OF assms, of _ 0 tot] by simp
  have "np_linspace 0 tot n ! 0 = 0"
    using nth assms by simp
  moreover have "np_linspace 0 tot n ! (n - 1) = tot"
    using nth assms by simp
  ultimately show ?thesis
    using nth by (simp add: interpolates_def length_np_linspace)
qed

lemma ncols_nth0: "rows \<noteq> [] \<Longrightarrow> length (rows ! 0) = ncols rows"
  by (cases rows) (simp_all add: ncols_def)

lemma x_axes_eq:
  assumes "rows \<noteq> []"
  shows "x_ace18 (Arr2 rows) = Inr (np_linspace 0 18700000 (ncols rows))"
    and "x_sgd18 (Arr2 rows) = Inr (np_linspace 0 18700000 (ncols rows))"
    and "x_sgd (Arr2 rows) = Inr (np_linspace 0 50000 (ncols rows))"
    and "x_ace (Arr2 rows) = Inr (np_linspace 0 85000 (ncols rows))"
  using assms ncols_nth0 [OF assms]
  by (simp_all add: x_ace18_def x_sgd18_def x_sgd_def x_ace_def item_def)

lemma x_fig5_eq:
  shows "x_sgd1_first100k (Arr2 rows) = Inr (np_linspace 0 100000 (ncols rows))"
    and "x_sgd1 (Arr2 rows) = Inr (np_linspace 0 18700000 (ncols rows))"
    and "x_sgd10 (Arr2 rows) = Inr (np_linspace 0 18700000 (ncols rows))"
    and "x_sgd100 (Arr2 rows) = Inr (np_linspace 0 18700000 (ncols rows))"
  by (simp_all add: x_sgd1_first100k_def x_sgd1_def x_sgd10_def x_sgd100_def item_def)

lemma interpolates_divide:
  assumes "interpolates tot n x" and "2 \<le> n"
  shows "interpolates (tot / k) n (np_divide x k)"
proof -
  have l: "length x = n" and z: "x ! 0 = 0" and e: "x ! (n - 1) = tot"
    and m: "\<forall>i < n. x ! i = real i * tot / real (n - 1)"
    using assms(1) by (simp_all add: interpolates_def)
  have "\<forall>i < n. np_divide x k ! i = real i * (tot / k) / real (n - 1)"
    using l m by (simp add: np_divide_def)
  moreover have "np_divide x k ! 0 = 0" using l z assms(2) by (simp add: np_divide_def)
  moreover have "np_divide x k ! (n - 1) = tot / k"
    using l e assms(2) by (simp add: np_divide_def)
  ultimately show ?thesis using l by (simp add: interpolates_def np_divide_def)
qed

text \<open>
  The claim as stated gives 18,700,000 for the pk traces. The x-axis of the first-100k
  trace of figure 5 ends at 100,000 instead: over three columns it is
  \<open>[0, 50000, 100000]\<close>.
\<close>

theorem first100k_axis_total:
  "x_sgd1_first100k (Arr2 [[1, 2, 3], [4, 5, 6]]) = Inr [0, 50000, 100000] \<and>
   \<not> interpolates 18700000 (ncols [[1, 2, 3], [4, 5, 6 :: real]]) [0, 50000, 100000]"
  by (simp add: x_sgd1_first100k_def item_def ncols_def np_linspace_def interpolates_def
      upt_rec)

text \<open>
  Claim C1, as amended. For a trace matrix (a 2-dimensional array whose rows share one
  column count) with at least two columns, each rescaled x-axis has one coordinate per
  column, maps the first column to 0 and the last column to the total of its source, and
  places column \<open>i\<close> at \<open>i * total / (columns - 1)\<close>. The total is 18,700,000 for the
  pk traces \<^verbatim>\<open>ace18\<close>, \<^verbatim>\<open>sgd18\<close>, \<^verbatim>\<open>sgd1\<close>, \<^verbatim>\<open>sgd10\<close> and \<^verbatim>\<open>sgd100\<close>, 100,000 for
  the pk trace \<^verbatim>\<open>sgd1_first100k\<close>, 50,000 for the geo SGD traces and 85,000 for the geo
  ACE traces. The axes \<^verbatim>\<open>x_sgd10/10\<close> and \<^verbatim>\<open>x_sgd100/100\<close> that subplots 232 and 233
  draw against run from 0 to 1,870,000 and to 187,000 in the same way.
\<close>

theorem rescaled_x_axis_endpoints:
  assumes "rows \<noteq> []" and "rect rows" and "2 \<le> ncols rows"
  shows "\<exists>xa xs xg xe xf x1 x10 x100.
           x_ace18 (Arr2 rows) = Inr xa \<and> interpolates 18700000 (ncols rows) xa \<and>
           x_sgd18 (Arr2 rows) = Inr xs \<and> interpolates 18700000 (ncols rows) xs \<and>
           x_sgd (Arr2 rows) = Inr xg \<and> interpolates 50000 (ncols rows) xg \<and>
           x_ace (Arr2 rows) = Inr xe \<and> interpolates 85000 (ncols rows) xe \<and>
           x_sgd1_first100k (Arr2 rows) = Inr xf \<and> interpolates 100000 (ncols rows) xf \<and>
           x_sgd1 (Arr2 rows) = Inr x1 \<and> interpolates 18700000 (ncols rows) x1 \<and>
           x_sgd10 (Arr2 rows) = Inr x10 \<and> interpolates 18700000 (ncols rows) x10 \<and>
           x_sgd100 (Arr2 rows) = Inr x100 \<and> interpolates 18700000 (ncols rows) x100 \<and>
           interpolates 1870000 (ncols rows) (np_divide x10 10) \<and>
           interpolates 187000 (ncols rows) (np_divide x100 100)"
proof -
  have d10: "interpolates 1870000 (ncols rows) (np_divide (np_linspace 0 18700000 (ncols rows)) 10)"
    using interpolates_divide [OF np_linspace_interpolates [OF assms(3), of 18700000] assms(3), of 10]
    by simp
  have d100: "interpolates 187000 (ncols rows) (np_divide (np_linspace 0 18700000 (ncols rows)) 100)"
    using interpolates_divide [OF np_linspace_interpolates [OF assms(3), of 18700000] assms(3), of 100]
    by simp
  show ?thesis
    using np_linspace_interpolates [OF assms(3)] d10 d100
    by (simp add: x_axes_eq [OF assms(1)] x_fig5_eq)
qed

theorem rescaled_x_axis_endpoints_witness:
  "\<exists>xa xs xg xe xf x1 x10 x100.
     x_ace18 (Arr2 [[1, 2, 3], [4, 5, 6]]) = Inr xa \<and>
     interpolates 18700000 (ncols [[1, 2, 3], [4, 5, 6 :: real]]) xa \<and>
     x_sgd18 (Arr2 [[1, 2, 3], [4, 5, 6]]) = Inr xs \<and>
     interpolates 18700000 (ncols [[1, 2, 3], [4, 5, 6 :: real]]) xs \<and>
     x_sgd (Arr2 [[1, 2, 3], [4, 5, 6]]) = Inr xg \<and>
     interpolates 50000 (ncols [[1, 2, 3], [4, 5, 6 :: real]]) xg \<and>
     x_ace (Arr2 [[1, 2, 3], [4, 5, 6]]) = Inr xe \<and>
     interpolates 85000 (ncols [[1, 2, 3], [4, 5, 6 :: real]]) xe \<and>
     x_sgd1_first100k (Arr2 [[1, 2, 3], [4, 5, 6]]) = Inr xf \<and>
     interpolates 100000 (ncols [[1, 2, 3], [4, 5, 6 :: real]]) xf \<and>
     x_sgd1 (Arr2 [[1, 2, 3], [4, 5, 6]]) = Inr x1 \<and>
     interpolates 18700000 (ncols [[1, 2, 3], [4, 5, 6 :: real]]) x1 \<and>
     x_sgd10 (Arr2 [[1, 2, 3], [4, 5, 6]]) = Inr x10 \<and>
     interpolates 18700000 (ncols [[1, 2, 3], [4, 5, 6 :: real]]) x10 \<and>
     x_sgd100 (Arr2 [[1, 2, 3], [4, 5, 6]]) = Inr x100 \<and>
     interpolates 18700000 (ncols [[1, 2, 3], [4, 5, 6 :: real]]) x100 \<and>
     interpolates 1870000 (ncols [[1, 2, 3], [4, 5, 6 :: real]]) (np_divide x10 10) \<and>
     interpolates 187000 (ncols [[1, 2, 3], [4, 5, 6 :: real]]) (np_divide x100 100)"
proof -
  have h1: "[[1, 2, 3], [4, 5, 6 :: real]] \<noteq> []" by simp
  have h2: "rect [[1, 2, 3], [4, 5, 6 :: real]]" by (simp add: rect_def ncols_def)
  have h3: "2 \<le> ncols [[1, 2, 3], [4, 5, 6 :: real]]" by (simp add: ncols_def)
  show ?thesis by (rule rescaled_x_axis_endpoints [OF h1 h2 h3])
qed

section \<open>The trace overlays\<close>

lemma rect_nth: "rect rows \<Longrightarrow> k < length rows \<Longrightarrow> length (rows ! k) = ncols rows"
  by (simp add: rect_def list_all_length)

lemma ncols_pos_nonempty: "0 < ncols rows \<Longrightarrow> rows \<noteq> []"
  by (auto simp: ncols_def)

lemma transpose_column:
  assumes "rect rows" and "k < length rows"
  shows "map (\<lambda>r. r ! k) (map (\<lambda>j. map (\<lambda>r. r ! j) rows) [0..<ncols rows]) = rows ! k"
proof -
  have "map (\<lambda>r. r ! k) (map (\<lambda>j. map (\<lambda>r. r ! j) rows) [0..<ncols rows])
          = map (\<lambda>j. (rows ! k) ! j) [0..<ncols rows]"
    using assms(2) by simp
  also have "\<dots> = map (\<lambda>j. (rows ! k) ! j) [0..<length (rows ! k)]"
    using assms by (simp only: rect_nth)
  also have "\<dots> = rows ! k"
    by (rule map_nth)
  finally show ?thesis .
qed

lemma ncols_transpose:
  assumes "0 < ncols rows"
  shows "ncols (map (\<lambda>j. map (\<lambda>r. r ! j) rows) [0..<ncols rows]) = length rows"
  using assms by (simp add: ncols_def upt_conv_Cons split: list.splits)

lemma plot_xy_transpose:
  assumes "rect rows" and "0 < ncols rows" and "length x = ncols rows"
  shows "plot_xy x (np_transpose (Arr2 rows)) c a =
           Inr (map (\<lambda>r. \<lparr>xdata = x, ydata = r, color = c, alpha = a\<rparr>) rows)"
proof -
  have "map (\<lambda>j. \<lparr>xdata = x, ydata = map (\<lambda>r. r ! j) (map (\<lambda>j. map (\<lambda>r. r ! j) rows) [0..<ncols rows]),
                  color = c, alpha = a\<rparr>) [0..<length rows]
        = map (\<lambda>j. \<lparr>xdata = x, ydata = rows ! j, color = c, alpha = a\<rparr>) [0..<length rows]"
    using assms(1) by (simp add: transpose_column del: map_map)
  also have "\<dots> = map (\<lambda>r. \<lparr>xdata = x, ydata = r, color = c, alpha = a\<rparr>) (map (\<lambda>j. rows ! j) [0..<length rows])"
    by simp
  also have "\<dots> = map (\<lambda>r. \<lparr>xdata = x, ydata = r, color = c, alpha = a\<rparr>) rows"
    by (simp only: map_nth)
  finally show ?thesis
    using assms by (simp add: ncols_transpose)
qed

lemma overlay_of_lines:
  assumes "2 \<le> ncols rows" and "a < 1"
  shows "trace_overlay tot rows
           (map (\<lambda>r. \<lparr>xdata = np_linspace 0 tot (ncols rows), ydata = r, color = c, alpha = Some a\<rparr>) rows)"
proof -
  have "rows \<noteq> []" using assms(1) by (auto simp: ncols_def)
  then have "0 < length rows" by simp
  then show ?thesis
    using assms np_linspace_interpolates [OF assms(1), of tot]
    by (simp add: trace_overlay_def list_all_iff)
qed

lemma collect_all:
  assumes "\<forall>i \<in> set is. f i = Inr (g i)"
  shows "collect f is = Inr (concat (map g is))"
  using assms by (induction "is") simp_all


lemma trace_lines:
  assumes "rows \<noteq> []" and "rect rows" and "0 < ncols rows"
  shows "trace_ace18 A (Arr2 rows) =
           Inr (map (\<lambda>r. \<lparr>xdata = np_linspace 0 18700000 (ncols rows), ydata = r,
                           color = A, alpha = Some (2 / 10)\<rparr>) rows)"
    and "trace_sgd18 S (Arr2 rows) =
           Inr (map (\<lambda>r. \<lparr>xdata = np_linspace 0 18700000 (ncols rows), ydata = r,
                           color = S, alpha = Some (1 / 10)\<rparr>) rows)"
    and "trace_sgd S (Arr2 rows) =
           Inr (map (\<lambda>r. \<lparr>xdata = np_linspace 0 50000 (ncols rows), ydata = r,
                           color = S, alpha = Some (5 / 100)\<rparr>) rows)"
    and "trace_ace A (Arr2 rows) =
           Inr (map (\<lambda>r. \<lparr>xdata = np_linspace 0 85000 (ncols rows), ydata = r,
                           color = A, alpha = Some (5 / 100)\<rparr>) rows)"
  using plot_xy_transpose [OF assms(2,3)]
  by (simp_all add: trace_ace18_def trace_sgd18_def trace_sgd_def trace_ace_def
        x_axes_eq [OF assms(1)] length_np_linspace)

lemma design_trace_row:
  assumes "i < length rows" and "i mod 6 + 1 < length col"
  shows "design_trace col (Arr2 rows) i =
           Inr [\<lparr>xdata = map real [0..<length (rows ! i)], ydata = rows ! i,
                  color = col ! (i mod 6 + 1), alpha = None\<rparr>]"
  using assms by (simp add: design_trace_def item_def)

lemma fig1b_lines:
  assumes "11 \<le> length rows" and "7 \<le> length col"
  shows "fig1b col (Arr2 rows) =
           Inr (map (\<lambda>i. \<lparr>xdata = map real [0..<length (rows ! i)], ydata = rows ! i,
                           color = col ! (i mod 6 + 1), alpha = None\<rparr>) [0..<11])"
proof -
  have "\<forall>i \<in> set [0..<11]. design_trace col (Arr2 rows) i =
          Inr [\<lparr>xdata = map real [0..<length (rows ! i)], ydata = rows ! i,
                 color = col ! (i mod 6 + 1), alpha = None\<rparr>]"
  proof
    fix i assume "i \<in> set [0..<11]"
    then have "i < 11" by simp
    then have "i < length rows" using assms(1) by simp
    moreover have "i mod 6 < 6" by simp
    then have "i mod 6 + 1 < length col" using assms(2) by linarith
    ultimately show "design_trace col (Arr2 rows) i =
          Inr [\<lparr>xdata = map real [0..<length (rows ! i)], ydata = rows ! i,
                 color = col ! (i mod 6 + 1), alpha = None\<rparr>]"
      by (rule design_trace_row)
  qed
  then have "fig1b col (Arr2 rows) =
      Inr (concat (map (\<lambda>i. [\<lparr>xdata = map real [0..<length (rows ! i)], ydata = rows ! i,
                 color = col ! (i mod 6 + 1), alpha = None\<rparr>]) [0..<11]))"
    unfolding fig1b_def by (rule collect_all)
  then show ?thesis by (simp add: concat_map_singleton)
qed

lemma overlay_of_axis:
  assumes "2 \<le> ncols rows" and "a < 1" and "interpolates tot (ncols rows) x"
  shows "trace_overlay tot rows
           (map (\<lambda>r. \<lparr>xdata = x, ydata = r, color = c, alpha = Some a\<rparr>) rows)"
proof -
  have "rows \<noteq> []" using assms(1) by (auto simp: ncols_def)
  then have "0 < length rows" by simp
  then show ?thesis
    using assms by (simp add: trace_overlay_def list_all_iff)
qed

lemma length_np_divide: "length (np_divide x k) = length x"
  by (simp add: np_divide_def)

lemma subplot_lines:
  assumes "rect rows" and "0 < ncols rows" and "7 \<le> length col"
  shows "subplot_231 col (Arr2 rows) =
           Inr (map (\<lambda>r. \<lparr>xdata = np_linspace 0 100000 (ncols rows), ydata = r,
                           color = col ! 0, alpha = Some (2 / 10)\<rparr>) rows)"
    and "subplot_232 col (Arr2 rows) =
           Inr (map (\<lambda>r. \<lparr>xdata = np_divide (np_linspace 0 18700000 (ncols rows)) 10,
                           ydata = r, color = col ! 3, alpha = Some (2 / 10)\<rparr>) rows)"
    and "subplot_233 col (Arr2 rows) =
           Inr (map (\<lambda>r. \<lparr>xdata = np_divide (np_linspace 0 18700000 (ncols rows)) 100,
                           ydata = r, color = col ! 6, alpha = Some (2 / 10)\<rparr>) rows)"
    and "subplot_234 col (Arr2 rows) =
           Inr (map (\<lambda>r. \<lparr>xdata = np_linspace 0 18700000 (ncols rows), ydata = r,
                           color = col ! 0, alpha = Some (2 / 10)\<rparr>) rows)"
    and "subplot_235 col (Arr2 rows) =
           Inr (map (\<lambda>r. \<lparr>xdata = np_linspace 0 18700000 (ncols rows), ydata = r,
                           color = col ! 3, alpha = Some (2 / 10)\<rparr>) rows)"
    and "subplot_236 col (Arr2 rows) =
           Inr (map (\<lambda>r. \<lparr>xdata = np_linspace 0 18700000 (ncols rows), ydata = r,
                           color = col ! 6, alpha = Some (2 / 10)\<rparr>) rows)"
proof -
  have i: "item col 0 = Inr (col ! 0)" "item col 3 = Inr (col ! 3)" "item col 6 = Inr (col ! 6)"
  proof -
    have "0 < length col" and "3 < length col" and "6 < length col"
      using assms(3) by linarith+
    then show "item col 0 = Inr (col ! 0)" and "item col 3 = Inr (col ! 3)"
      and "item col 6 = Inr (col ! 6)"
      unfolding item_def by simp_all
  qed
  note p = plot_xy_transpose [OF assms(1,2)]
  show "subplot_231 col (Arr2 rows) =
           Inr (map (\<lambda>r. \<lparr>xdata = np_linspace 0 100000 (ncols rows), ydata = r,
                           color = col ! 0, alpha = Some (2 / 10)\<rparr>) rows)"
    unfolding subplot_231_def x_fig5_eq i bind_err.simps
    by (rule p) (rule length_np_linspace)
  show "subplot_232 col (Arr2 rows) =
           Inr (map (\<lambda>r. \<lparr>xdata = np_divide (np_linspace 0 18700000 (ncols rows)) 10,
                           ydata = r, color = col ! 3, alpha = Some (2 / 10)\<rparr>) rows)"
    unfolding subplot_232_def x_fig5_eq i bind_err.simps
    by (rule p) (simp add: length_np_divide length_np_linspace)
  show "subplot_233 col (Arr2 rows) =
           Inr (map (\<lambda>r. \<lparr>xdata = np_divide (np_linspace 0 18700000 (ncols rows)) 100,
                           ydata = r, color = col ! 6, alpha = Some (2 / 10)\<rparr>) rows)"
    unfolding subplot_233_def x_fig5_eq i bind_err.simps
    by (rule p) (simp add: length_np_divide length_np_linspace)
  show "subplot_234 col (Arr2 rows) =
           Inr (map (\<lambda>r. \<lparr>xdata = np_linspace 0 18700000 (ncols rows), ydata = r,
                           color = col ! 0, alpha = Some (2 / 10)\<rparr>) rows)"
    unfolding subplot_234_def x_fig5_eq i bind_err.simps
    by (rule p) (rule length_np_linspace)
  show "subplot_235 col (Arr2 rows) =
           Inr (map (\<lambda>r. \<lparr>xdata = np_linspace 0 18700000 (ncols rows), ydata = r,
                           color = col ! 3, alpha = Some (2 / 10)\<rparr>) rows)"
    unfolding subplot_235_def x_fig5_eq i bind_err.simps
    by (rule p) (rule length_np_linspace)
  show "subplot_236 col (Arr2 rows) =
           Inr (map (\<lambda>r. \<lparr>xdata = np_linspace 0 18700000 (ncols rows), ydata = r,
                           color = col ! 6, alpha = Some (2 / 10)\<rparr>) rows)"
    unfolding subplot_236_def x_fig5_eq i bind_err.simps
    by (rule p) (rule length_np_linspace)
qed

lemma overlay_lines:
  assumes "2 \<le> ncols rows" and "a < 1" and "interpolates tot (ncols rows) x"
    and "res = Inr (map (\<lambda>r. \<lparr>xdata = x, ydata = r, color = c, alpha = Some a\<rparr>) rows)"
  shows "renders_overlay tot rows res"
  using overlay_of_axis [OF assms(1,2,3), of c] assms(4) by (simp add: renders_overlay_def)

text \<open>
  Claim C4, as amended. In the trace overlays of \<^verbatim>\<open>pk_model.py\<close> (figure 3 and the six
  subplots of figure 5) and of \<^verbatim>\<open>geo_model.py\<close>, every row of a trace matrix with at
  least two columns is drawn as its own line, all lines of a call in one colour and at
  the opacity of the call (0.2, 0.1 or 0.05), against an x-axis that interpolates from 0
  to the total of the call. The trace figure of \<^verbatim>\<open>death_model.py\<close> is drawn
  differently: it draws the first 11 rows only, row \<open>i\<close> in colour
  \<open>col[i mod 6 + 1]\<close>, with no opacity given, against the column index itself.
\<close>

theorem trace_overlays_by_script:
  assumes "rows \<noteq> []" and "rect rows" and "2 \<le> ncols rows"
  shows "renders_overlay 18700000 rows (trace_ace18 A (Arr2 rows)) \<and>
         trace_ace18 A (Arr2 rows) =
           Inr (map (\<lambda>r. \<lparr>xdata = np_linspace 0 18700000 (ncols rows), ydata = r,
                           color = A, alpha = Some (2 / 10)\<rparr>) rows) \<and>
         renders_overlay 18700000 rows (trace_sgd18 S (Arr2 rows)) \<and>
         trace_sgd18 S (Arr2 rows) =
           Inr (map (\<lambda>r. \<lparr>xdata = np_linspace 0 18700000 (ncols rows), ydata = r,
                           color = S, alpha = Some (1 / 10)\<rparr>) rows) \<and>
         renders_overlay 50000 rows (trace_sgd S (Arr2 rows)) \<and>
         trace_sgd S (Arr2 rows) =
           Inr (map (\<lambda>r. \<lparr>xdata = np_linspace 0 50000 (ncols rows), ydata = r,
                           color = S, alpha = Some (5 / 100)\<rparr>) rows) \<and>
         renders_overlay 85000 rows (trace_ace A (Arr2 rows)) \<and>
         trace_ace A (Arr2 rows) =
           Inr (map (\<lambda>r. \<lparr>xdata = np_linspace 0 85000 (ncols rows), ydata = r,
                           color = A, alpha = Some (5 / 100)\<rparr>) rows) \<and>
         (7 \<le> length col \<longrightarrow>
            renders_overlay 100000 rows (subplot_231 col (Arr2 rows)) \<and>
            subplot_231 col (Arr2 rows) =
              Inr (map (\<lambda>r. \<lparr>xdata = np_linspace 0 100000 (ncols rows), ydata = r,
                              color = col ! 0, alpha = Some (2 / 10)\<rparr>) rows) \<and>
            renders_overlay 1870000 rows (subplot_232 col (Arr2 rows)) \<and>
            subplot_232 col (Arr2 rows) =
              Inr (map (\<lambda>r. \<lparr>xdata = np_divide (np_linspace 0 18700000 (ncols rows)) 10,
                              ydata = r, color = col ! 3, alpha = Some (2 / 10)\<rparr>) rows) \<and>
            renders_overlay 187000 rows (subplot_233 col (Arr2 rows)) \<and>
            subplot_233 col (Arr2 rows) =
              Inr (map (\<lambda>r. \<lparr>xdata = np_divide (np_linspace 0 18700000 (ncols rows)) 100,
                              ydata = r, color = col ! 6, alpha = Some (2 / 10)\<rparr>) rows) \<and>
            renders_overlay 18700000 rows (subplot_234 col (Arr2 rows)) \<and>
            subplot_234 col (Arr2 rows) =
              Inr (map (\<lambda>r. \<lparr>xdata = np_linspace 0 18700000 (ncols rows), ydata = r,
                              color = col ! 0, alpha = Some (2 / 10)\<rparr>) rows) \<and>
            renders_overlay 18700000 rows (subplot_235 col (Arr2 rows)) \<and>
            subplot_235 col (Arr2 rows) =
              Inr (map (\<lambda>r. \<lparr>xdata = np_linspace 0 18700000 (ncols rows), ydata = r,
                              color = col ! 3, alpha = Some (2 / 10)\<rparr>) rows) \<and>
            renders_overlay 18700000 rows (subplot_236 col (Arr2 rows)) \<and>
            subplot_236 col (Arr2 rows) =
              Inr (map (\<lambda>r. \<lparr>xdata = np_linspace 0 18700000 (ncols rows), ydata = r,
                              color = col ! 6, alpha = Some (2 / 10)\<rparr>) rows)) \<and>
         (11 \<le> length rows \<and> 7 \<le> length col \<longrightarrow>
            fig1b col (Arr2 rows) =
              Inr (map (\<lambda>i. \<lparr>xdata = map real [0..<ncols rows], ydata = rows ! i,
                              color = col ! (i mod 6 + 1), alpha = None\<rparr>) [0..<11]))"
proof -
  have pos: "0 < ncols rows" using assms(3) by simp
  note tl = trace_lines [OF assms(1,2) pos]
  have a: "renders_overlay 18700000 rows (trace_ace18 A (Arr2 rows))"
    using overlay_of_lines [OF assms(3), of "2 / 10" 18700000 A]
    by (simp add: renders_overlay_def tl)
  have b: "renders_overlay 18700000 rows (trace_sgd18 S (Arr2 rows))"
    using overlay_of_lines [OF assms(3), of "1 / 10" 18700000 S]
    by (simp add: renders_overlay_def tl)
  have c: "renders_overlay 50000 rows (trace_sgd S (Arr2 rows))"
    using overlay_of_lines [OF assms(3), of "5 / 100" 50000 S]
    by (simp add: renders_overlay_def tl)
  have d: "renders_overlay 85000 rows (trace_ace A (Arr2 rows))"
    using overlay_of_lines [OF assms(3), of "5 / 100" 85000 A]
    by (simp add: renders_overlay_def tl)
  have e: "11 \<le> length rows \<and> 7 \<le> length col \<longrightarrow>
            fig1b col (Arr2 rows) =
              Inr (map (\<lambda>i. \<lparr>xdata = map real [0..<ncols rows], ydata = rows ! i,
                              color = col ! (i mod 6 + 1), alpha = None\<rparr>) [0..<11])"
  proof
    assume h: "11 \<le> length rows \<and> 7 \<le> length col"
    then have "\<forall>i \<in> set [0..<11]. length (rows ! i) = ncols rows"
      using rect_nth [OF assms(2)] by simp
    then have "map (\<lambda>i. \<lparr>xdata = map real [0..<length (rows ! i)], ydata = rows ! i,
                           color = col ! (i mod 6 + 1), alpha = None\<rparr>) [0..<11]
             = map (\<lambda>i. \<lparr>xdata = map real [0..<ncols rows], ydata = rows ! i,
                              color = col ! (i mod 6 + 1), alpha = None\<rparr>) [0..<11]"
      by (intro map_cong) simp_all
    then show "fig1b col (Arr2 rows) =
              Inr (map (\<lambda>i. \<lparr>xdata = map real [0..<ncols rows], ydata = rows ! i,
                              color = col ! (i mod 6 + 1), alpha = None\<rparr>) [0..<11])"
      using fig1b_lines h by simp
  qed
  have f: "7 \<le> length col \<longrightarrow>
            renders_overlay 100000 rows (subplot_231 col (Arr2 rows)) \<and>
            subplot_231 col (Arr2 rows) =
              Inr (map (\<lambda>r. \<lparr>xdata = np_linspace 0 100000 (ncols rows), ydata = r,
                              color = col ! 0, alpha = Some (2 / 10)\<rparr>) rows) \<and>
            renders_overlay 1870000 rows (subplot_232 col (Arr2 rows)) \<and>
            subplot_232 col (Arr2 rows) =
              Inr (map (\<lambda>r. \<lparr>xdata = np_divide (np_linspace 0 18700000 (ncols rows)) 10,
                              ydata = r, color = col ! 3, alpha = Some (2 / 10)\<rparr>) rows) \<and>
            renders_overlay 187000 rows (subplot_233 col (Arr2 rows)) \<and>
            subplot_233 col (Arr2 rows) =
              Inr (map (\<lambda>r. \<lparr>xdata = np_divide (np_linspace 0 18700000 (ncols rows)) 100,
                              ydata = r, color = col ! 6, alpha = Some (2 / 10)\<rparr>) rows) \<and>
            renders_overlay 18700000 rows (subplot_234 col (Arr2 rows)) \<and>
            subplot_234 col (Arr2 rows) =
              Inr (map (\<lambda>r. \<lparr>xdata = np_linspace 0 18700000 (ncols rows), ydata = r,
                              color = col ! 0, alpha = Some (2 / 10)\<rparr>) rows) \<and>
            renders_overlay 18700000 rows (subplot_235 col (Arr2 rows)) \<and>
            subplot_235 col (Arr2 rows) =
              Inr (map (\<lambda>r. \<lparr>xdata = np_linspace 0 18700000 (ncols rows), ydata = r,
                              color = col ! 3, alpha = Some (2 / 10)\<rparr>) rows) \<and>
            renders_overlay 18700000 rows (subplot_236 col (Arr2 rows)) \<and>
            subplot_236 col (Arr2 rows) =
              Inr (map (\<lambda>r. \<lparr>xdata = np_linspace 0 18700000 (ncols rows), ydata = r,
                              color = col ! 6, alpha = Some (2 / 10)\<rparr>) rows)"
  proof
    assume h: "7 \<le> length col"
    note sl = subplot_lines [OF assms(2) pos h]
    have al: "(2 / 10 :: real) < 1" by simp
    have i18: "interpolates 18700000 (ncols rows) (np_linspace 0 18700000 (ncols rows))"
      by (rule np_linspace_interpolates [OF assms(3)])
    have i100k: "interpolates 100000 (ncols rows) (np_linspace 0 100000 (ncols rows))"
      by (rule np_linspace_interpolates [OF assms(3)])
    have i10: "interpolates 1870000 (ncols rows)
                 (np_divide (np_linspace 0 18700000 (ncols rows)) 10)"
      using interpolates_divide [OF i18 assms(3), of 10] by simp
    have i100: "interpolates 187000 (ncols rows)
                 (np_divide (np_linspace 0 18700000 (ncols rows)) 100)"
      using interpolates_divide [OF i18 assms(3), of 100] by simp
    have "renders_overlay 100000 rows (subplot_231 col (Arr2 rows))"
      by (rule overlay_lines [OF assms(3) al i100k sl(1)])
    moreover have "renders_overlay 1870000 rows (subplot_232 col (Arr2 rows))"
      by (rule overlay_lines [OF assms(3) al i10 sl(2)])
    moreover have "renders_overlay 187000 rows (subplot_233 col (Arr2 rows))"
      by (rule overlay_lines [OF assms(3) al i100 sl(3)])
    moreover have "renders_overlay 18700000 rows (subplot_234 col (Arr2 rows))"
      by (rule overlay_lines [OF assms(3) al i18 sl(4)])
    moreover have "renders_overlay 18700000 rows (subplot_235 col (Arr2 rows))"
      by (rule overlay_lines [OF assms(3) al i18 sl(5)])
    moreover have "renders_overlay 18700000 rows (subplot_236 col (Arr2 rows))"
      by (rule overlay_lines [OF assms(3) al i18 sl(6)])
    ultimately show "renders_overlay 100000 rows (subplot_231 col (Arr2 rows)) \<and>
            subplot_231 col (Arr2 rows) =
              Inr (map (\<lambda>r. \<lparr>xdata = np_linspace 0 100000 (ncols rows), ydata = r,
                              color = col ! 0, alpha = Some (2 / 10)\<rparr>) rows) \<and>
            renders_overlay 1870000 rows (subplot_232 col (Arr2 rows)) \<and>
            subplot_232 col (Arr2 rows) =
              Inr (map (\<lambda>r. \<lparr>xdata = np_divide (np_linspace 0 18700000 (ncols rows)) 10,
                              ydata = r, color = col ! 3, alpha = Some (2 / 10)\<rparr>) rows) \<and>
            renders_overlay 187000 rows (subplot_233 col (Arr2 rows)) \<and>
            subplot_233 col (Arr2 rows) =
              Inr (map (\<lambda>r. \<lparr>xdata = np_divide (np_linspace 0 18700000 (ncols rows)) 100,
                              ydata = r, color = col ! 6, alpha = Some (2 / 10)\<rparr>) rows) \<and>
            renders_overlay 18700000 rows (subplot_234 col (Arr2 rows)) \<and>
            subplot_234 col (Arr2 rows) =
              Inr (map (\<lambda>r. \<lparr>xdata = np_linspace 0 18700000 (ncols rows), ydata = r,
                              color = col ! 0, alpha = Some (2 / 10)\<rparr>) rows) \<and>
            renders_overlay 18700000 rows (subplot_235 col (Arr2 rows)) \<and>
            subplot_235 col (Arr2 rows) =
              Inr (map (\<lambda>r. \<lparr>xdata = np_linspace 0 18700000 (ncols rows), ydata = r,
                              color = col ! 3, alpha = Some (2 / 10)\<rparr>) rows) \<and>
            renders_overlay 18700000 rows (subplot_236 col (Arr2 rows)) \<and>
            subplot_236 col (Arr2 rows) =
              Inr (map (\<lambda>r. \<lparr>xdata = np_linspace 0 18700000 (ncols rows), ydata = r,
                              color = col ! 6, alpha = Some (2 / 10)\<rparr>) rows)"
      using sl by (intro conjI)
  qed
  have abcd: "renders_overlay 18700000 rows (trace_ace18 A (Arr2 rows)) \<and>
         trace_ace18 A (Arr2 rows) =
           Inr (map (\<lambda>r. \<lparr>xdata = np_linspace 0 18700000 (ncols rows), ydata = r,
                           color = A, alpha = Some (2 / 10)\<rparr>) rows) \<and>
         renders_overlay 18700000 rows (trace_sgd18 S (Arr2 rows)) \<and>
         trace_sgd18 S (Arr2 rows) =
           Inr (map (\<lambda>r. \<lparr>xdata = np_linspace 0 18700000 (ncols rows), ydata = r,
                           color = S, alpha = Some (1 / 10)\<rparr>) rows) \<and>
         renders_overlay 50000 rows (trace_sgd S (Arr2 rows)) \<and>
         trace_sgd S (Arr2 rows) =
           Inr (map (\<lambda>r. \<lparr>xdata = np_linspace 0 50000 (ncols rows), ydata = r,
                           color = S, alpha = Some (5 / 100)\<rparr>) rows) \<and>
         renders_overlay 85000 rows (trace_ace A (Arr2 rows)) \<and>
         trace_ace A (Arr2 rows) =
           Inr (map (\<lambda>r. \<lparr>xdata = np_linspace 0 85000 (ncols rows), ydata = r,
                           color = A, alpha = Some (5 / 100)\<rparr>) rows)"
    using a b c d tl by (intro conjI)
  show ?thesis using abcd f e by blast
qed


lemma ncols_replicate: "0 < n \<Longrightarrow> ncols (replicate n r) = length r"
  by (cases n) (simp_all add: ncols_def)

lemma rect_replicate: "rect (replicate n r)"
  by (cases n) (simp_all add: rect_def ncols_def list_all_iff)

lemma upt_11: "[0..<11] = [0, 1, 2, 3, 4, 5, 6, 7, 8, 9, 10]"
  by (simp add: upt_rec)

lemma death_example:
  "fig1b default_cycle (Arr2 (replicate 12 [1, 2])) =
     Inr (map (\<lambda>c. \<lparr>xdata = [0, 1], ydata = [1, 2], color = c, alpha = None\<rparr>)
            [''#ff7f0e'', ''#2ca02c'', ''#d62728'', ''#9467bd'', ''#8c564b'', ''#e377c2'',
             ''#ff7f0e'', ''#2ca02c'', ''#d62728'', ''#9467bd'', ''#8c564b''])"
proof -
  have "fig1b default_cycle (Arr2 (replicate 12 [1, 2])) =
      Inr (map (\<lambda>i. \<lparr>xdata = map real [0..<length (replicate 12 [1, 2 :: real] ! i)],
                      ydata = replicate 12 [1, 2] ! i,
                      color = default_cycle ! (i mod 6 + 1), alpha = None\<rparr>) [0..<11])"
    by (rule fig1b_lines) (simp_all add: default_cycle_def)
  then show ?thesis
    by (simp add: upt_11 default_cycle_def upt_rec)
qed

text \<open>
  The claim as stated fails on the death-model figure: a trace matrix of 12 rows gives
  11 lines, in six different colours, opaque, against the column indices 0 and 1.
\<close>

theorem death_traces_not_overlay:
  "\<not> renders_overlay 10000 (replicate 12 [1, 2])
       (fig1b default_cycle (Arr2 (replicate 12 [1, 2]))) \<and>
   fig1b default_cycle (Arr2 (replicate 12 [1, 2])) =
     Inr (map (\<lambda>c. \<lparr>xdata = [0, 1], ydata = [1, 2], color = c, alpha = None\<rparr>)
            [''#ff7f0e'', ''#2ca02c'', ''#d62728'', ''#9467bd'', ''#8c564b'', ''#e377c2'',
             ''#ff7f0e'', ''#2ca02c'', ''#d62728'', ''#9467bd'', ''#8c564b''])"
  by (simp add: death_example renders_overlay_def trace_overlay_def)

theorem trace_overlays_by_script_witness:
  "renders_overlay 18700000 (replicate 12 [1, 2]) (trace_ace18 ''#d62728'' (Arr2 (replicate 12 [1, 2]))) \<and>
   renders_overlay 18700000 (replicate 12 [1, 2]) (trace_sgd18 ''#1f77b4'' (Arr2 (replicate 12 [1, 2]))) \<and>
   renders_overlay 50000 (replicate 12 [1, 2]) (trace_sgd ''#1f77b4'' (Arr2 (replicate 12 [1, 2]))) \<and>
   renders_overlay 85000 (replicate 12 [1, 2]) (trace_ace ''#d62728'' (Arr2 (replicate 12 [1, 2]))) \<and>
   renders_overlay 100000 (replicate 12 [1, 2]) (subplot_231 default_cycle (Arr2 (replicate 12 [1, 2]))) \<and>
   renders_overlay 1870000 (replicate 12 [1, 2]) (subplot_232 default_cycle (Arr2 (replicate 12 [1, 2]))) \<and>
   renders_overlay 187000 (replicate 12 [1, 2]) (subplot_233 default_cycle (Arr2 (replicate 12 [1, 2]))) \<and>
   renders_overlay 18700000 (replicate 12 [1, 2]) (subplot_234 default_cycle (Arr2 (replicate 12 [1, 2]))) \<and>
   renders_overlay 18700000 (replicate 12 [1, 2]) (subplot_235 default_cycle (Arr2 (replicate 12 [1, 2]))) \<and>
   renders_overlay 18700000 (replicate 12 [1, 2]) (subplot_236 default_cycle (Arr2 (replicate 12 [1, 2]))) \<and>
   fig1b default_cycle (Arr2 (replicate 12 [1, 2])) =
     Inr (map (\<lambda>i. \<lparr>xdata = map real [0..<ncols (replicate 12 [1, 2 :: real])],
                     ydata = replicate 12 [1, 2] ! i,
                     color = default_cycle ! (i mod 6 + 1), alpha = None\<rparr>) [0..<11])"
proof -
  have h1: "replicate 12 [1, 2 :: real] \<noteq> []" by simp
  have h2: "rect (replicate 12 [1, 2 :: real])"
    by (rule rect_replicate)
  have h3: "2 \<le> ncols (replicate 12 [1, 2 :: real])"
    by (simp add: ncols_replicate)
  have h4: "11 \<le> length (replicate 12 [1, 2 :: real]) \<and> 7 \<le> length default_cycle"
    by (simp add: default_cycle_def)
  have h5: "7 \<le> length default_cycle" using h4 by (rule conjunct2)
  show ?thesis
    using trace_overlays_by_script [OF h1 h2 h3, of "''#d62728''" "''#1f77b4''" default_cycle] h4 h5
    by blast
qed

section \<open>Properties of the boxplot colouring\<close>

lemma length_set_facecolors: "length (set_facecolors ps cs) = length ps"
  by (induction ps cs rule: set_facecolors.induct) simp_all

lemma set_facecolors_nth:
  "i < length ps \<Longrightarrow> i < length cs \<Longrightarrow>
   set_facecolors ps cs ! i = (ps ! i)\<lparr>facecolor := cs ! i\<rparr>"
  by (induction ps cs arbitrary: i rule: set_facecolors.induct) (auto simp: nth_Cons')

lemma set_facecolors_nth_rest:
  "i < length ps \<Longrightarrow> length cs \<le> i \<Longrightarrow> set_facecolors ps cs ! i = ps ! i"
  by (induction ps cs arbitrary: i rule: set_facecolors.induct) (auto simp: nth_Cons')

lemma facecolors_boxplot:
  "map facecolor (set_facecolors (boxplot d vs) cs) =
   take (length vs) cs @ replicate (length vs - length cs) d"
proof (induction vs arbitrary: cs)
  case Nil
  show ?case by (cases cs) (simp_all add: boxplot_def)
next
  case (Cons v vs)
  show ?case
  proof (cases cs)
    case Nil
    then show ?thesis by (simp add: boxplot_def comp_def map_replicate_const)
  next
    case (Cons c cs')
    with Cons.IH [of cs'] show ?thesis by (simp add: boxplot_def)
  qed
qed

lemma drawn_from_boxplot:
  "map drawn_from (set_facecolors (boxplot d vs) cs) = vs"
proof (induction vs arbitrary: cs)
  case Nil
  show ?case by (cases cs) (simp_all add: boxplot_def)
next
  case (Cons v vs)
  show ?case
  proof (cases cs)
    case Nil
    then show ?thesis by (simp add: boxplot_def comp_def map_replicate_const)
  next
    case (Cons c cs')
    with Cons.IH [of cs'] show ?thesis by (simp add: boxplot_def)
  qed
qed

text \<open>
  Claim C3. Box \<open>i\<close> of a boxplot is drawn from vector \<open>i\<close> and receives entry \<open>i\<close> of the
  colour list \<^verbatim>\<open>bp_cols\<close>; two lists of vectors of the same length, whatever their
  numeric contents, give the same colours box by box. In \<^verbatim>\<open>pk_model.py\<close> the nine boxes
  take the nine entries of its \<^verbatim>\<open>bp_cols\<close>, in \<^verbatim>\<open>geo_model.py\<close> the two boxes take
  \<^verbatim>\<open>[Scol, Acol]\<close>.
\<close>

theorem boxplot_colors_positional:
  "(\<forall>i. i < length vectors \<and> i < length bp_cols \<longrightarrow>
        facecolor (set_facecolors (boxplot dflt vectors) bp_cols ! i) = bp_cols ! i \<and>
        drawn_from (set_facecolors (boxplot dflt vectors) bp_cols ! i) = vectors ! i) \<and>
   (length vectors' = length vectors \<longrightarrow>
      map facecolor (set_facecolors (boxplot dflt vectors') bp_cols) =
      map facecolor (set_facecolors (boxplot dflt vectors) bp_cols)) \<and>
   (length pv = 9 \<longrightarrow> map facecolor (pk_boxes dflt mc pv) = pk_bp_cols mc) \<and>
   (length gv = 2 \<longrightarrow> map facecolor (geo_boxes dflt S A gv) = [S, A])"
proof (intro conjI allI impI)
  fix i assume h: "i < length vectors \<and> i < length bp_cols"
  have l: "i < length (boxplot dflt vectors)" using h by (simp add: boxplot_def)
  show "facecolor (set_facecolors (boxplot dflt vectors) bp_cols ! i) = bp_cols ! i"
    using set_facecolors_nth [OF l, of bp_cols] h by simp
  show "drawn_from (set_facecolors (boxplot dflt vectors) bp_cols ! i) = vectors ! i"
    using set_facecolors_nth [OF l, of bp_cols] h by (simp add: boxplot_def)
next
  assume "length vectors' = length vectors"
  then show "map facecolor (set_facecolors (boxplot dflt vectors') bp_cols) =
      map facecolor (set_facecolors (boxplot dflt vectors) bp_cols)"
    by (simp only: facecolors_boxplot)
next
  assume "length pv = 9"
  then show "map facecolor (pk_boxes dflt mc pv) = pk_bp_cols mc"
    by (simp add: pk_boxes_def facecolors_boxplot pk_bp_cols_def)
next
  assume "length gv = 2"
  then show "map facecolor (geo_boxes dflt S A gv) = [S, A]"
    by (simp add: geo_boxes_def facecolors_boxplot geo_bp_cols_def)
qed

theorem boxplot_colors_positional_witness:
  "facecolor (set_facecolors (boxplot ''w'' [[1, 2], [3, 4::real]]) [''r'', ''g''] ! 1) = ''g'' \<and>
   map facecolor (set_facecolors (boxplot ''w'' [[9, 9], [0, 7]]) [''r'', ''g'']) =
   map facecolor (set_facecolors (boxplot ''w'' [[1, 2], [3, 4]]) [''r'', ''g'']) \<and>
   map facecolor (geo_boxes ''w'' ''r'' ''g'' [[1, 2], [3, 4]]) = [''r'', ''g'']"
proof -
  have h1: "(1::nat) < length [[1, 2], [3, 4::real]] \<and> (1::nat) < length [''r'', ''g'']" by simp
  have h2: "length [[9, 9], [0, 7::real]] = length [[1, 2], [3, 4::real]]" by simp
  have h3: "length [[1, 2], [3, 4::real]] = 2" by simp
  note t = boxplot_colors_positional [of "[[1, 2], [3, 4]]" "[''r'', ''g'']" "''w''"
        "[[9, 9], [0, 7]]" "[]" "\<lparr>Scol = ''r'', Acol = ''g'', Mcol = ''b'', Mcol2 = ''c''\<rparr>" "[[1, 2], [3, 4]]" "''r''" "''g''"]
  have a: "facecolor (set_facecolors (boxplot ''w'' [[1, 2], [3, 4::real]]) [''r'', ''g''] ! 1) = ''g''"
  proof -
    have g: "[''r'', ''g''] ! 1 = ''g''" by simp
    from t [THEN conjunct1, THEN spec, of 1, THEN mp, OF h1, THEN conjunct1] g
    show ?thesis by (rule trans)
  qed
  have b: "map facecolor (set_facecolors (boxplot ''w'' [[9, 9], [0, 7::real]]) [''r'', ''g'']) =
   map facecolor (set_facecolors (boxplot ''w'' [[1, 2], [3, 4]]) [''r'', ''g''])"
    using t [THEN conjunct2, THEN conjunct1, THEN mp, OF h2] .
  have c: "map facecolor (geo_boxes ''w'' ''r'' ''g'' [[1, 2], [3, 4::real]]) = [''r'', ''g'']"
    using t [THEN conjunct2, THEN conjunct2, THEN conjunct2, THEN mp, OF h3] .
  show ?thesis using a b c by (intro conjI)
qed

section \<open>Properties of the returned-designs scatter figures\<close>

lemma rect_all: "rect rows \<Longrightarrow> r \<in> set rows \<Longrightarrow> length r = ncols rows"
  by (simp add: rect_def list_all_iff)

lemma ncols_map_map: "ncols (map (map f) rows) = ncols rows"
  by (cases rows) (simp_all add: ncols_def)

lemma count_true_map:
  assumes "\<forall>r \<in> set rows. j < length r"
  shows "length (filter (\<lambda>r. r ! j) (map (map f) rows)) = length (filter (\<lambda>r. f (r ! j)) rows)"
  using assms by (induction rows) simp_all

lemma num_at_8_2_columns:
  assumes "rect rows"
  shows "num_at_8_2 (Arr2 rows) =
         Inr (Arr1 (map (\<lambda>c. length (filter (\<lambda>r. 8 < r ! c) rows)) [0..<ncols rows]))"
proof -
  have "\<forall>j \<in> set [0..<ncols rows].
          length (filter (\<lambda>r. r ! j) (map (map (\<lambda>v. 8 < v)) rows)) =
          length (filter (\<lambda>r. 8 < r ! j) rows)"
  proof
    fix j assume "j \<in> set [0..<ncols rows]"
    then have "\<forall>r \<in> set rows. j < length r" using rect_all [OF assms] by simp
    then show "length (filter (\<lambda>r. r ! j) (map (map (\<lambda>v. 8 < v)) rows)) =
          length (filter (\<lambda>r. 8 < r ! j) rows)" by (rule count_true_map)
  qed
  then have "map (\<lambda>j. length (filter (\<lambda>r. r ! j) (map (map (\<lambda>v. 8 < v)) rows))) [0..<ncols rows] =
        map (\<lambda>c. length (filter (\<lambda>r. 8 < r ! c) rows)) [0..<ncols rows]"
    by (simp only: map_eq_conv)
  then show ?thesis by (simp add: num_at_8_2_def ncols_map_map)
qed

lemma sum_counts_le:
  "sum_list (map (\<lambda>c. length (filter (P c) rows)) [0..<n]) \<le> length rows * n"
proof (induction n)
  case 0
  show ?case by simp
next
  case (Suc n)
  have "length (filter (P n) rows) \<le> length rows" by simp
  with Suc have "sum_list (map (\<lambda>c. length (filter (P c) rows)) [0..<n]) + length (filter (P n) rows)
      \<le> length rows * n + length rows" by (rule add_mono)
  then show ?case by simp
qed

lemma label_at_Arr1:
  assumes "i < length cs"
  shows "label_at scol (Arr1 cs) i =
         Inr [\<lparr>at_x = real i + 7 / 10, at_y = (if i mod 2 = 0 then 95 / 10 else 62 / 10),
               shown = Arr0 (cs ! i), text_color = scol\<rparr>]"
  using assms by (simp add: label_at_def)

lemma count_labels_Arr1:
  assumes "15 \<le> length cs"
  shows "count_labels scol (Arr1 cs) =
         Inr (map (\<lambda>i. \<lparr>at_x = real i + 7 / 10,
                          at_y = (if i mod 2 = 0 then 95 / 10 else 62 / 10),
                          shown = Arr0 (cs ! i), text_color = scol\<rparr>) [0..<15])"
proof -
  have "\<forall>i \<in> set [0..<15]. label_at scol (Arr1 cs) i =
          Inr ((\<lambda>i. [\<lparr>at_x = real i + 7 / 10, at_y = (if i mod 2 = 0 then 95 / 10 else 62 / 10),
               shown = Arr0 (cs ! i), text_color = scol\<rparr>]) i)"
    using assms by (simp add: label_at_Arr1)
  then have "count_labels scol (Arr1 cs) =
      Inr (concat (map (\<lambda>i. [\<lparr>at_x = real i + 7 / 10, at_y = (if i mod 2 = 0 then 95 / 10 else 62 / 10),
               shown = Arr0 (cs ! i), text_color = scol\<rparr>]) [0..<15]))"
    unfolding count_labels_def by (rule collect_all)
  then show ?thesis by (simp only: concat_map_singleton)
qed

lemma length_np_repeat: "length (np_repeat xs n) = length xs * n"
  by (induction xs) (simp_all add: np_repeat_def)

lemma np_repeat_block:
  "i < length xs \<Longrightarrow> take n (drop (i * n) (np_repeat xs n)) = replicate n (xs ! i)"
proof (induction xs arbitrary: i)
  case Nil
  then show ?case by simp
next
  case (Cons x xs)
  show ?case
  proof (cases i)
    case 0
    then show ?thesis by (simp add: np_repeat_def)
  next
    case (Suc k)
    then have "k < length xs" using Cons.prems by simp
    from Cons.IH [OF this] Suc show ?thesis by (simp add: np_repeat_def)
  qed
qed

lemma reshape_repeat:
  "np_reshape (np_repeat xs n) (length xs) n = Inr (Arr2 (map (\<lambda>i. replicate n (xs ! i)) [0..<length xs]))"
  by (simp add: np_reshape_def length_np_repeat np_repeat_block)

lemma transpose_replicated:
  assumes "xs \<noteq> []"
  shows "np_transpose (Arr2 (map (\<lambda>i. replicate n (xs ! i)) [0..<length xs])) = Arr2 (replicate n xs)"
proof -
  have nc: "ncols (map (\<lambda>i. replicate n (xs ! i)) [0..<length xs]) = n"
  proof -
    have "0 < length xs" using assms by simp
    then have "[0..<length xs] = 0 # [Suc 0..<length xs]" by (rule upt_conv_Cons)
    then show ?thesis by (simp add: ncols_def)
  qed
  have "map (\<lambda>j. map (\<lambda>r. r ! j) (map (\<lambda>i. replicate n (xs ! i)) [0..<length xs])) [0..<n] =
        map (\<lambda>j. xs) [0..<n]"
  proof (rule map_cong [OF refl])
    fix j assume "j \<in> set [0..<n]"
    then have "map (\<lambda>r. r ! j) (map (\<lambda>i. replicate n (xs ! i)) [0..<length xs]) =
               map (\<lambda>i. xs ! i) [0..<length xs]" by simp
    then show "map (\<lambda>r. r ! j) (map (\<lambda>i. replicate n (xs ! i)) [0..<length xs]) = xs"
      by (simp only: map_nth)
  qed
  then show ?thesis by (simp add: nc map_replicate_const)
qed

lemma x_index_value: "x_index = Inr (Arr2 (replicate 100 (map real [1..<16])))"
proof -
  have l: "length (np_arange 1 16) = 15" by (simp add: np_arange_def)
  have ne: "np_arange 1 16 \<noteq> []" using l by auto
  have "np_reshape (np_repeat (np_arange 1 16) 100) 15 100 =
        Inr (Arr2 (map (\<lambda>i. replicate 100 (np_arange 1 16 ! i)) [0..<length (np_arange 1 16)]))"
    using reshape_repeat [of "np_arange 1 16" 100] by (simp only: l)
  then have "x_index = Inr (np_transpose (Arr2 (map (\<lambda>i. replicate 100 (np_arange 1 16 ! i))
                                 [0..<length (np_arange 1 16)])))"
    unfolding x_index_def by (simp del: np_transpose.simps)
  then have "x_index = Inr (Arr2 (replicate 100 (np_arange 1 16)))"
    by (simp only: transpose_replicated [OF ne])
  then show ?thesis by (simp only: np_arange_def)
qed


lemma length_concat_rect:
  "\<forall>r \<in> set rows. length r = n \<Longrightarrow> length (concat rows) = length rows * n"
  by (induction rows) simp_all

lemma concat_nth_rect:
  "\<forall>r \<in> set rows. length r = n \<Longrightarrow> i < length rows \<Longrightarrow> c < n \<Longrightarrow>
   concat rows ! (i * n + c) = rows ! i ! c"
proof (induction rows arbitrary: i)
  case Nil
  then show ?case by simp
next
  case (Cons row rows)
  have l: "length row = n" using Cons.prems(1) by simp
  show ?case
  proof (cases i)
    case 0
    then show ?thesis using l Cons.prems(3) by (simp add: nth_append)
  next
    case (Suc k)
    have "concat rows ! (k * n + c) = rows ! k ! c"
      using Cons.IH [of k] Cons.prems Suc by simp
    moreover have "(row @ concat rows) ! (n + (k * n + c)) = concat rows ! (k * n + c)"
      using l by (simp add: nth_append)
    ultimately show ?thesis using Suc by (simp add: add.assoc)
  qed
qed

lemma labels_of_matrix:
  assumes "rect rows" and "15 \<le> ncols rows"
  shows "bind_err (num_at_8_2 (Arr2 rows)) (count_labels scol) =
         Inr (map (\<lambda>i. \<lparr>at_x = real i + 7 / 10,
                          at_y = (if i mod 2 = 0 then 95 / 10 else 62 / 10),
                          shown = Arr0 (length (filter (\<lambda>r. 8 < r ! i) rows)),
                          text_color = scol\<rparr>) [0..<15])"
proof -
  let ?cs = "map (\<lambda>c. length (filter (\<lambda>r. 8 < r ! c) rows)) [0..<ncols rows]"
  have l: "15 \<le> length ?cs" using assms(2) by simp
  have "\<forall>i \<in> set [0..<15]. ?cs ! i = length (filter (\<lambda>r. 8 < r ! i) rows)"
    using assms(2) by simp
  then have "map (\<lambda>i. \<lparr>at_x = real i + 7 / 10,
                          at_y = (if i mod 2 = 0 then 95 / 10 else 62 / 10),
                          shown = Arr0 (?cs ! i), text_color = scol\<rparr>) [0..<15] =
        map (\<lambda>i. \<lparr>at_x = real i + 7 / 10,
                          at_y = (if i mod 2 = 0 then 95 / 10 else 62 / 10),
                          shown = Arr0 (length (filter (\<lambda>r. 8 < r ! i) rows)),
                          text_color = scol\<rparr>) [0..<15]"
    by (simp only: map_eq_conv) simp
  then show ?thesis
    by (simp only: num_at_8_2_columns [OF assms(1)] bind_err.simps count_labels_Arr1 [OF l])
qed

lemma scatter_x_index:
  "plt_scatter (Arr2 (replicate 100 (map real [1..<16]))) y =
     (if np_size y = 1500
      then Inr (zip (concat (replicate 100 (map real [1..<16]))) (np_ravel y))
      else Inl ValueError)"
proof -
  have "ncols (replicate 100 (map real [1..<16])) = 15"
    by (simp add: ncols_replicate)
  then show ?thesis by (auto simp add: plt_scatter_def)
qed

lemma x_flat_nth:
  assumes "r < 100" and "c < 15"
  shows "concat (replicate 100 (map real [1..<16])) ! (r * 15 + c) = real (c + 1)"
proof -
  have "concat (replicate 100 (map real [1..<16])) ! (r * 15 + c) =
        replicate 100 (map real [1..<16]) ! r ! c"
    using assms by (intro concat_nth_rect) simp_all
  also have "\<dots> = real (c + 1)" using assms by simp
  finally show ?thesis .
qed


lemma panel_plain_value:
  "panel_plain y =
     (if np_size y = 1500
      then Inr \<lparr>points = zip (concat (replicate 100 (map real [1..<16]))) (np_ravel y),
                labels = []\<rparr>
      else Inl ValueError)"
  unfolding panel_plain_def x_index_value bind_err.simps scatter_x_index by simp

lemma panel_4a_value:
  assumes "rect rows" and "15 \<le> ncols rows" and "length rows * ncols rows = 1500"
  shows "panel_4a scol (Arr2 rows) =
         Inr \<lparr>points = zip (concat (replicate 100 (map real [1..<16]))) (concat rows),
              labels = map (\<lambda>i. \<lparr>at_x = real i + 7 / 10,
                          at_y = (if i mod 2 = 0 then 95 / 10 else 62 / 10),
                          shown = Arr0 (length (filter (\<lambda>r. 8 < r ! i) rows)),
                          text_color = scol\<rparr>) [0..<15]\<rparr>"
proof -
  have c: "count_labels scol (Arr1 (map (\<lambda>c. length (filter (\<lambda>r. 8 < r ! c) rows)) [0..<ncols rows])) =
        Inr (map (\<lambda>i. \<lparr>at_x = real i + 7 / 10,
                          at_y = (if i mod 2 = 0 then 95 / 10 else 62 / 10),
                          shown = Arr0 (length (filter (\<lambda>r. 8 < r ! i) rows)),
                          text_color = scol\<rparr>) [0..<15])"
    using labels_of_matrix [OF assms(1,2), of scol]
    by (simp only: num_at_8_2_columns [OF assms(1)] bind_err.simps)
  show ?thesis
    unfolding panel_4a_def x_index_value bind_err.simps scatter_x_index
    using assms(3) c by (simp add: num_at_8_2_columns [OF assms(1)])
qed

lemma panel_4d_value:
  assumes "rect rows" and "15 \<le> ncols rows" and "length rows * ncols rows = 1500"
  shows "panel_4d scol (Arr2 rows) =
         Inr \<lparr>points = zip (concat (replicate 100 (map real [1..<16]))) (concat rows),
              labels = map (\<lambda>i. \<lparr>at_x = real i + 7 / 10,
                          at_y = (if i mod 2 = 0 then 95 / 10 else 62 / 10),
                          shown = Arr0 (length (filter (\<lambda>r. 8 < r ! i) rows)),
                          text_color = scol\<rparr>) [0..<15]\<rparr>"
proof -
  have "panel_4d scol (Arr2 rows) = panel_4a scol (Arr2 rows)"
    by (simp add: panel_4d_def panel_4a_def)
  then show ?thesis by (simp only: panel_4a_value [OF assms])
qed

lemma design_points:
  assumes "rect d" and "length d = 100" and "ncols d = 15"
  shows "length (zip (concat (replicate 100 (map real [1..<16]))) (concat d)) = 1500"
    and "r < 100 \<Longrightarrow> c < 15 \<Longrightarrow>
         zip (concat (replicate 100 (map real [1..<16]))) (concat d) ! (r * 15 + c) =
         (real (c + 1), d ! r ! c)"
proof -
  have a: "\<forall>r \<in> set d. length r = 15" using rect_all [OF assms(1)] assms(3) by simp
  have ld: "length (concat d) = 1500" using length_concat_rect [OF a] assms(2) by simp
  have lx: "length (concat (replicate 100 (map real [1..<16]))) = 1500"
    using length_concat_rect [of "replicate 100 (map real [1..<16])" 15] by simp
  show "length (zip (concat (replicate 100 (map real [1..<16]))) (concat d)) = 1500"
    using ld lx by simp
  assume r: "r < 100" and c: "c < 15"
  have i: "r * 15 + c < 1500" using r c by simp
  have "concat d ! (r * 15 + c) = d ! r ! c"
    using concat_nth_rect [OF a, of r c] r c assms(2) by simp
  then show "zip (concat (replicate 100 (map real [1..<16]))) (concat d) ! (r * 15 + c) =
         (real (c + 1), d ! r ! c)"
    using i ld lx x_flat_nth [OF r c] by simp
qed

text \<open>
  Claim C2. For a design matrix with the 15 columns the labelling loop reads, the count
  of column \<open>c\<close> is the number of rows whose entry in column \<open>c\<close> is strictly greater
  than 8, the label of column \<open>c\<close> shows that count, and the counts sum to at most the
  number of rows times the number of columns. Subfigures 4a and 4d carry these labels.
\<close>

theorem threshold_counts_per_column:
  assumes "rect rows" and "15 \<le> ncols rows"
  shows "num_at_8_2 (Arr2 rows) =
           Inr (Arr1 (map (\<lambda>c. length (filter (\<lambda>r. 8 < r ! c) rows)) [0..<ncols rows])) \<and>
         sum_list (map (\<lambda>c. length (filter (\<lambda>r. 8 < r ! c) rows)) [0..<ncols rows])
           \<le> length rows * ncols rows \<and>
         (\<exists>ls. bind_err (num_at_8_2 (Arr2 rows)) (count_labels scol) = Inr ls \<and>
               map shown ls =
               map (\<lambda>c. Arr0 (length (filter (\<lambda>r. 8 < r ! c) rows))) [0..<15]) \<and>
         (length rows * ncols rows = 1500 \<longrightarrow>
            (\<exists>p. panel_4a scol (Arr2 rows) = Inr p \<and> panel_4d scol (Arr2 rows) = Inr p \<and>
                 map shown (labels p) =
                 map (\<lambda>c. Arr0 (length (filter (\<lambda>r. 8 < r ! c) rows))) [0..<15]))"
proof (intro conjI impI)
  show "num_at_8_2 (Arr2 rows) =
           Inr (Arr1 (map (\<lambda>c. length (filter (\<lambda>r. 8 < r ! c) rows)) [0..<ncols rows]))"
    by (rule num_at_8_2_columns [OF assms(1)])
  show "sum_list (map (\<lambda>c. length (filter (\<lambda>r. 8 < r ! c) rows)) [0..<ncols rows])
           \<le> length rows * ncols rows"
    by (rule sum_counts_le)
  show "\<exists>ls. bind_err (num_at_8_2 (Arr2 rows)) (count_labels scol) = Inr ls \<and>
               map shown ls =
               map (\<lambda>c. Arr0 (length (filter (\<lambda>r. 8 < r ! c) rows))) [0..<15]"
    by (simp add: labels_of_matrix [OF assms] comp_def)
next
  assume "length rows * ncols rows = 1500"
  then show "\<exists>p. panel_4a scol (Arr2 rows) = Inr p \<and> panel_4d scol (Arr2 rows) = Inr p \<and>
                 map shown (labels p) =
                 map (\<lambda>c. Arr0 (length (filter (\<lambda>r. 8 < r ! c) rows))) [0..<15]"
    by (simp add: panel_4a_value [OF assms] panel_4d_value [OF assms] comp_def)
qed

theorem threshold_counts_per_column_witness:
  "num_at_8_2 (Arr2 (replicate 100 (replicate 15 9))) = Inr (Arr1 (replicate 15 100)) \<and>
   (\<exists>p. panel_4a ''#1f77b4'' (Arr2 (replicate 100 (replicate 15 9))) = Inr p \<and>
        map shown (labels p) = replicate 15 (Arr0 100))"
proof -
  have h1: "rect (replicate 100 (replicate 15 (9::real)))" by (rule rect_replicate)
  have nc: "ncols (replicate 100 (replicate 15 (9::real))) = 15" by (simp add: ncols_replicate)
  have h2: "15 \<le> ncols (replicate 100 (replicate 15 (9::real)))" by (simp only: nc)
  have h3: "length (replicate 100 (replicate 15 (9::real))) *
            ncols (replicate 100 (replicate 15 (9::real))) = 1500" by (simp add: nc)
  have c1: "\<forall>c \<in> set [0..<15].
          length (filter (\<lambda>r. 8 < r ! c) (replicate 100 (replicate 15 (9::real)))) = 100"
    by (simp add: filter_replicate)
  have "map (\<lambda>c. length (filter (\<lambda>r. 8 < r ! c) (replicate 100 (replicate 15 (9::real)))))
               [0..<15] = map (\<lambda>c. 100) [0..<15]"
    using c1 by (simp only: map_eq_conv)
  then have cnt: "map (\<lambda>c. length (filter (\<lambda>r. 8 < r ! c) (replicate 100 (replicate 15 (9::real)))))
               [0..<15] = replicate 15 100"
    by (simp add: map_replicate_const)
  have "map (\<lambda>c. Arr0 (length (filter (\<lambda>r. 8 < r ! c) (replicate 100 (replicate 15 (9::real))))))
               [0..<15] = map (\<lambda>c. Arr0 100) [0..<15]"
    using c1 by (simp only: map_eq_conv) simp
  then have cnt': "map (\<lambda>c. Arr0 (length (filter (\<lambda>r. 8 < r ! c) (replicate 100 (replicate 15 (9::real))))))
               [0..<15] = replicate 15 (Arr0 100)"
    by (simp add: map_replicate_const)
  note t = threshold_counts_per_column [OF h1 h2, of "''#1f77b4''"]
  have a: "num_at_8_2 (Arr2 (replicate 100 (replicate 15 9))) = Inr (Arr1 (replicate 15 100))"
    using t [THEN conjunct1] by (simp only: nc cnt)
  have b: "\<exists>p. panel_4a ''#1f77b4'' (Arr2 (replicate 100 (replicate 15 9))) = Inr p \<and>
        map shown (labels p) = replicate 15 (Arr0 100)"
    using t [THEN conjunct2, THEN conjunct2, THEN conjunct2, THEN mp, OF h3]
    by (simp only: cnt') blast
  show ?thesis using a b by (rule conjI)
qed

text \<open>
  Claim C5. The label of column \<open>i\<close> (counted from 0) stands at height 9.5 when \<open>i\<close> is
  even and at height 6.2 when \<open>i\<close> is odd, a little to the left of observation index
  \<open>i + 1\<close>: two heights, the even columns at the higher one.
\<close>

theorem label_offsets_alternate:
  assumes "rect rows" and "15 \<le> ncols rows"
  shows "\<exists>ls. bind_err (num_at_8_2 (Arr2 rows)) (count_labels scol) = Inr ls \<and>
              length ls = 15 \<and>
              (\<forall>i<15. at_y (ls ! i) = (if even i then 95 / 10 else 62 / 10) \<and>
                       at_x (ls ! i) = real i + 7 / 10) \<and>
              (62 / 10 :: real) < 95 / 10"
proof -
  have "\<forall>i<15. [0..<15] ! i = i" by simp
  then show ?thesis
    by (simp add: labels_of_matrix [OF assms] even_iff_mod_2_eq_zero del: upt_Suc)
qed

theorem label_offsets_alternate_witness:
  "\<exists>ls. bind_err (num_at_8_2 (Arr2 (replicate 100 (replicate 15 9)))) (count_labels ''#1f77b4'') = Inr ls \<and>
        length ls = 15 \<and> at_y (ls ! 0) = 95 / 10 \<and> at_y (ls ! 1) = 62 / 10 \<and>
        at_y (ls ! 2) = 95 / 10 \<and> at_y (ls ! 13) = 62 / 10 \<and> at_y (ls ! 14) = 95 / 10"
proof -
  have h1: "rect (replicate 100 (replicate 15 (9::real)))" by (rule rect_replicate)
  have h2: "15 \<le> ncols (replicate 100 (replicate 15 (9::real)))" by (simp add: ncols_replicate)
  from label_offsets_alternate [OF h1 h2, of "''#1f77b4''"]
  obtain ls where
    a: "bind_err (num_at_8_2 (Arr2 (replicate 100 (replicate 15 9)))) (count_labels ''#1f77b4'') = Inr ls"
    and b: "length ls = 15"
    and c: "\<forall>i<15. at_y (ls ! i) = (if even i then 95 / 10 else 62 / 10) \<and>
                       at_x (ls ! i) = real i + 7 / 10"
    by blast
  have "at_y (ls ! 0) = 95 / 10" using c [THEN spec, of 0] by simp
  moreover have "at_y (ls ! 1) = 62 / 10" using c [THEN spec, of 1] by simp
  moreover have "at_y (ls ! 2) = 95 / 10" using c [THEN spec, of 2] by simp
  moreover have "at_y (ls ! 13) = 62 / 10" using c [THEN spec, of 13] by simp
  moreover have "at_y (ls ! 14) = 95 / 10" using c [THEN spec, of 14] by simp
  ultimately show ?thesis using a b by blast
qed

text \<open>
  Claim C10. The matrix \<^verbatim>\<open>x\<close> is built from no loaded data: it has 100 rows and 15
  columns and column \<open>c\<close> holds \<open>c + 1\<close> throughout. For a design matrix of 100 rows and
  15 columns the scatter pairs the entry of row \<open>r\<close> and column \<open>c\<close> with the
  x-coordinate \<open>c + 1\<close>; the scatter is drawn exactly when the design array has
  \<open>1500\<close> entries.
\<close>

theorem x_index_matrix:
  "(\<exists>x. x_index = Inr (Arr2 x) \<and> length x = 100 \<and> ncols x = 15 \<and> rect x \<and>
        (\<forall>r c. r < 100 \<and> c < 15 \<longrightarrow> x ! r ! c = real (c + 1))) \<and>
   (rect d \<and> length d = 100 \<and> ncols d = 15 \<longrightarrow>
      (\<exists>pts. panel_plain (Arr2 d) = Inr \<lparr>points = pts, labels = []\<rparr> \<and>
             (\<exists>ls. panel_4a scol (Arr2 d) = Inr \<lparr>points = pts, labels = ls\<rparr>) \<and>
             length pts = 1500 \<and>
             (\<forall>r c. r < 100 \<and> c < 15 \<longrightarrow> pts ! (r * 15 + c) = (real (c + 1), d ! r ! c)))) \<and>
   ((\<exists>p. panel_plain y = Inr p) = (np_size y = 1500))"
proof (intro conjI impI)
  show "\<exists>x. x_index = Inr (Arr2 x) \<and> length x = 100 \<and> ncols x = 15 \<and> rect x \<and>
        (\<forall>r c. r < 100 \<and> c < 15 \<longrightarrow> x ! r ! c = real (c + 1))"
    by (simp add: x_index_value ncols_replicate rect_replicate)
  show "(\<exists>p. panel_plain y = Inr p) = (np_size y = 1500)"
    by (simp add: panel_plain_value)
next
  assume h: "rect d \<and> length d = 100 \<and> ncols d = 15"
  then have r: "rect d" and l: "length d = 100" and n: "ncols d = 15" by simp_all
  have n': "15 \<le> ncols d" and sz: "length d * ncols d = 1500" using l n by simp_all
  have p: "panel_plain (Arr2 d) =
        Inr \<lparr>points = zip (concat (replicate 100 (map real [1..<16]))) (concat d), labels = []\<rparr>"
    using sz by (simp add: panel_plain_value)
  have q: "\<exists>ls. panel_4a scol (Arr2 d) =
        Inr \<lparr>points = zip (concat (replicate 100 (map real [1..<16]))) (concat d), labels = ls\<rparr>"
    by (simp only: panel_4a_value [OF r n' sz]) blast
  have s: "\<forall>r c. r < 100 \<and> c < 15 \<longrightarrow>
      zip (concat (replicate 100 (map real [1..<16]))) (concat d) ! (r * 15 + c) =
      (real (c + 1), d ! r ! c)"
    using design_points(2) [OF r l n] by blast
  show "\<exists>pts. panel_plain (Arr2 d) = Inr \<lparr>points = pts, labels = []\<rparr> \<and>
             (\<exists>ls. panel_4a scol (Arr2 d) = Inr \<lparr>points = pts, labels = ls\<rparr>) \<and>
             length pts = 1500 \<and>
             (\<forall>r c. r < 100 \<and> c < 15 \<longrightarrow> pts ! (r * 15 + c) = (real (c + 1), d ! r ! c))"
    using p q s design_points(1) [OF r l n] by blast
qed

theorem x_index_matrix_witness:
  "\<exists>pts. panel_plain (Arr2 (replicate 100 (replicate 15 5))) = Inr \<lparr>points = pts, labels = []\<rparr> \<and>
         length pts = 1500 \<and> pts ! 33 = (4, 5) \<and> pts ! 1499 = (15, 5)"
proof -
  have h: "rect (replicate 100 (replicate 15 (5::real))) \<and>
           length (replicate 100 (replicate 15 (5::real))) = 100 \<and>
           ncols (replicate 100 (replicate 15 (5::real))) = 15"
    by (simp add: rect_replicate ncols_replicate)
  from x_index_matrix [of "replicate 100 (replicate 15 5)" "''#1f77b4''" "Arr0 0",
      THEN conjunct2, THEN conjunct1, THEN mp, OF h]
  obtain pts where
    a: "panel_plain (Arr2 (replicate 100 (replicate 15 5))) = Inr \<lparr>points = pts, labels = []\<rparr>"
    and b: "length pts = 1500"
    and c: "\<forall>r c. r < 100 \<and> c < 15 \<longrightarrow>
              pts ! (r * 15 + c) = (real (c + 1), replicate 100 (replicate 15 (5::real)) ! r ! c)"
    by blast
  have "pts ! 33 = (4, 5)" using c [THEN spec, of 2, THEN spec, of 3] by simp
  moreover have "pts ! 1499 = (15, 5)" using c [THEN spec, of 99, THEN spec, of 14] by simp
  ultimately show ?thesis using a b by blast
qed

section \<open>Properties of the parameter sweep and of the utility surface\<close>

lemma no_empty_row:
  assumes "rect rows" and "0 < ncols rows"
  shows "\<not> list_ex (\<lambda>r. r = []) rows"
proof
  assume "list_ex (\<lambda>r. r = []) rows"
  then obtain r where "r \<in> set rows" and "r = []" by (auto simp add: list_ex_iff)
  then show False using rect_all [OF assms(1), of r] assms(2) by simp
qed

lemma squeeze_matrix:
  assumes "2 \<le> length rows" and "2 \<le> ncols rows"
  shows "squeeze rows = Arr2 rows"
proof -
  obtain a b rest where "rows = a # b # rest"
    using assms(1) by (cases rows; cases "tl rows") auto
  then show ?thesis using assms(2) by (simp add: squeeze_def)
qed

lemma loadtxt_matrix:
  assumes "fs path = Some rows" and "rect rows" and "2 \<le> length rows" and "2 \<le> ncols rows"
  shows "loadtxt fs path = Inr (Arr2 rows)"
proof -
  have "0 < ncols rows" using assms(4) by simp
  from no_empty_row [OF assms(2) this] show ?thesis
    by (simp add: loadtxt_def assms(1,2) squeeze_matrix [OF assms(3,4)])
qed

lemma sweep_figure_matrix:
  assumes "fs (sweep_dir @ name) = Some rows" and "rect rows"
    and "2 \<le> length rows" and "2 \<le> ncols rows"
  shows "sweep_figure fs name =
         Inr \<lparr>fig_points = map (\<lambda>r. (r ! 0, r ! 1)) rows,
              xlim = (- (55 / 100), 55 / 100), ylim = (- (55 / 100), 55 / 100),
              xticks = [], yticks = []\<rparr>"
proof -
  have "zip (map (\<lambda>r. r ! 0) rows) (map (\<lambda>r. r ! 1) rows) = map (\<lambda>r. (r ! 0, r ! 1)) rows"
    by (induction rows) simp_all
  moreover have "loadtxt fs (sweep_dir @ name) = Inr (Arr2 rows)"
    using assms by (rule loadtxt_matrix)
  ultimately show ?thesis
    using assms(4) by (simp add: sweep_figure_def plt_scatter_def)
qed

lemma column_squeeze_narrow:
  assumes "ncols rows < 2" and "\<not> list_ex (\<lambda>r. r = []) rows"
  shows "column (squeeze rows) 0 = Inl IndexError"
proof (cases rows)
  case Nil
  then show ?thesis by (simp add: squeeze_def)
next
  case (Cons a rest)
  have a: "a \<noteq> []" using assms(2) Cons by simp
  then have n: "ncols rows = 1" using assms(1) Cons by (cases a) (simp_all add: ncols_def)
  show ?thesis
  proof (cases rest)
    case Nil
    then show ?thesis using Cons by (simp add: squeeze_def split: list.split)
  next
    case (Cons b rest')
    then show ?thesis using \<open>rows = a # rest\<close> n by (simp add: squeeze_def)
  qed
qed

lemma loadtxt_narrow:
  assumes "fs path = Some rows" and "ncols rows < 2"
  shows "bind_err (loadtxt fs path) (\<lambda>x. bind_err (column x 0) (f x)) =
         Inl (if list_ex (\<lambda>r. r = []) rows \<or> \<not> rect rows then ValueError else IndexError)"
  using assms column_squeeze_narrow [of rows] by (simp add: loadtxt_def)

lemma sweep_stops:
  assumes "sweep_figure fs name = Inl e"
  shows "\<exists>figs e'. sweep fs (before @ name # after) = (figs, Some e') \<and>
                   length figs \<le> length before"
proof (induction before)
  case Nil
  show ?case using assms by simp
next
  case (Cons b before)
  then obtain figs e' where s: "sweep fs (before @ name # after) = (figs, Some e')"
    and l: "length figs \<le> length before" by blast
  show ?case
  proof (cases "sweep_figure fs b")
    case (Inl e0)
    then show ?thesis by simp
  next
    case (Inr fig)
    then show ?thesis using s l by simp
  qed
qed

lemma sweep_all:
  assumes "\<forall>name \<in> set names. sweep_figure fs name = Inr (g name)"
  shows "sweep fs names = (map g names, None)"
  using assms by (induction names) simp_all


lemma sweep_figure_cong:
  assumes "fs (sweep_dir @ name) = fs' (sweep_dir @ name)"
  shows "sweep_figure fs name = sweep_figure fs' name"
  using assms by (simp add: sweep_figure_def loadtxt_def)

lemma sweep_cong:
  assumes "\<forall>name \<in> set names. fs (sweep_dir @ name) = fs' (sweep_dir @ name)"
  shows "sweep fs names = sweep fs' names"
  using assms
  by (induction names) (simp_all add: sweep_figure_cong [of fs _ fs'] split: sum.splits)

lemma sweep_valid:
  assumes "\<forall>name \<in> set names. \<exists>rows. (fs :: files) (sweep_dir @ name) = Some rows \<and> rect rows \<and>
             2 \<le> length rows \<and> 2 \<le> ncols rows"
  shows "sweep fs names =
         (map (\<lambda>name. \<lparr>fig_points = map (\<lambda>r. (r ! 0, r ! 1)) (the (fs (sweep_dir @ name))),
              xlim = (- (55 / 100), 55 / 100), ylim = (- (55 / 100), 55 / 100),
              xticks = [], yticks = []\<rparr>) names, None)"
proof (rule sweep_all, rule ballI)
  fix name assume "name \<in> set names"
  then obtain rows where r: "fs (sweep_dir @ name) = Some rows" "rect rows"
             "2 \<le> length rows" "2 \<le> ncols rows" using assms by blast
  show "sweep_figure fs name =
        Inr \<lparr>fig_points = map (\<lambda>r. (r ! 0, r ! 1)) (the (fs (sweep_dir @ name))),
              xlim = (- (55 / 100), 55 / 100), ylim = (- (55 / 100), 55 / 100),
              xticks = [], yticks = []\<rparr>"
    using sweep_figure_matrix [of fs name rows] r by simp
qed

text \<open>
  Claim C6 fails as stated: a directory holding one file with the single point
  \<open>(0.1, 0.2)\<close> gives no figure, because the loaded array of a one-line file is
  1-dimensional and \<^verbatim>\<open>x[:,0]\<close> raises.
\<close>

theorem sweep_single_point_file:
  "sweep (\<lambda>p. if p = sweep_dir @ ''a.txt'' then Some [[1 / 10, 2 / 10]] else None) [''a.txt'']
     = ([], Some IndexError) \<and>
   length (fst (sweep (\<lambda>p. if p = sweep_dir @ ''a.txt'' then Some [[1 / 10, 2 / 10]] else None)
                  [''a.txt''])) \<noteq> length [''a.txt'']"
  by (simp add: sweep_figure_def loadtxt_def squeeze_def rect_def ncols_def)

text \<open>
  Claim C6, as amended. When every file of the directory holds a rectangular table of at
  least two rows and two columns, the sweep shows one figure per file, figure \<open>k\<close> drawn
  from file \<open>k\<close> alone with the fixed bounds and no ticks; the number of figures is the
  number of files whatever the listing order, a further such file adds one figure and a
  removed file takes one away.
\<close>

theorem sweep_one_figure_per_file:
  assumes "\<forall>name \<in> set names. \<exists>rows. (fs :: files) (sweep_dir @ name) = Some rows \<and> rect rows \<and>
             2 \<le> length rows \<and> 2 \<le> ncols rows"
  shows "\<exists>figs. sweep fs names = (figs, None) \<and> length figs = length names \<and>
           (\<forall>k rows. k < length names \<and> fs (sweep_dir @ names ! k) = Some rows \<longrightarrow>
              figs ! k = \<lparr>fig_points = map (\<lambda>r. (r ! 0, r ! 1)) rows,
                          xlim = (- (55 / 100), 55 / 100), ylim = (- (55 / 100), 55 / 100),
                          xticks = [], yticks = []\<rparr>) \<and>
           (\<forall>names'. set names' = set names \<longrightarrow>
              length (fst (sweep fs names')) = length names') \<and>
           (\<forall>pre post n (new :: real list list).
              names = pre @ post \<and> n \<notin> set names \<and> rect new \<and>
              2 \<le> length new \<and> 2 \<le> ncols new \<longrightarrow>
              length (fst (sweep (fs(sweep_dir @ n \<mapsto> new)) (pre @ n # post))) =
              length figs + 1) \<and>
           (\<forall>pre post n. names = pre @ n # post \<and> n \<notin> set (pre @ post) \<longrightarrow>
              length (fst (sweep (fs(sweep_dir @ n := None)) (pre @ post))) + 1 =
              length figs)"
proof -
  let ?fig = "\<lambda>fs name. \<lparr>fig_points = map (\<lambda>r. (r ! 0, r ! 1)) (the (fs (sweep_dir @ name))),
              xlim = (- (55 / 100), 55 / 100), ylim = (- (55 / 100), 55 / 100),
              xticks = [], yticks = []\<rparr>"
  have v: "sweep fs names = (map (?fig fs) names, None)" by (rule sweep_valid [OF assms])
  have a: "\<forall>k rows. k < length names \<and> fs (sweep_dir @ names ! k) = Some rows \<longrightarrow>
              map (?fig fs) names ! k = \<lparr>fig_points = map (\<lambda>r. (r ! 0, r ! 1)) rows,
                          xlim = (- (55 / 100), 55 / 100), ylim = (- (55 / 100), 55 / 100),
                          xticks = [], yticks = []\<rparr>"
    by simp
  have b: "\<forall>names'. set names' = set names \<longrightarrow> length (fst (sweep fs names')) = length names'"
  proof (intro allI impI)
    fix names' assume "set names' = set names"
    then have "\<forall>name \<in> set names'. \<exists>rows. fs (sweep_dir @ name) = Some rows \<and> rect rows \<and>
             2 \<le> length rows \<and> 2 \<le> ncols rows" using assms by simp
    from sweep_valid [OF this] show "length (fst (sweep fs names')) = length names'"
      by (simp only: fst_conv length_map)
  qed
  have c: "\<forall>pre post n (new :: real list list).
              names = pre @ post \<and> n \<notin> set names \<and> rect new \<and>
              2 \<le> length new \<and> 2 \<le> ncols new \<longrightarrow>
              length (fst (sweep (fs(sweep_dir @ n \<mapsto> new)) (pre @ n # post))) =
              length (map (?fig fs) names) + 1"
  proof (intro allI impI)
    fix pre post n and rows :: "real list list"
    assume h: "names = pre @ post \<and> n \<notin> set names \<and> rect rows \<and>
              2 \<le> length rows \<and> 2 \<le> ncols rows"
    have "\<forall>name \<in> set (pre @ n # post).
            \<exists>rs. (fs(sweep_dir @ n \<mapsto> rows)) (sweep_dir @ name) = Some rs \<and> rect rs \<and>
                 2 \<le> length rs \<and> 2 \<le> ncols rs"
    proof
      fix name assume m: "name \<in> set (pre @ n # post)"
      show "\<exists>rs. (fs(sweep_dir @ n \<mapsto> rows)) (sweep_dir @ name) = Some rs \<and> rect rs \<and>
                 2 \<le> length rs \<and> 2 \<le> ncols rs"
      proof (cases "name = n")
        case True
        then show ?thesis using h by simp
      next
        case False
        then have "name \<in> set names" using m h by auto
        then show ?thesis using assms False by simp
      qed
    qed
    from sweep_valid [OF this]
    have "length (fst (sweep (fs(sweep_dir @ n \<mapsto> rows)) (pre @ n # post))) =
          length (pre @ n # post)" by (simp only: fst_conv length_map)
    then show "length (fst (sweep (fs(sweep_dir @ n \<mapsto> rows)) (pre @ n # post))) =
              length (map (?fig fs) names) + 1" using h by simp
  qed
  have d: "\<forall>pre post n. names = pre @ n # post \<and> n \<notin> set (pre @ post) \<longrightarrow>
              length (fst (sweep (fs(sweep_dir @ n := None)) (pre @ post))) + 1 =
              length (map (?fig fs) names)"
  proof (intro allI impI)
    fix pre post n
    assume h: "names = pre @ n # post \<and> n \<notin> set (pre @ post)"
    have "\<forall>name \<in> set (pre @ post).
            \<exists>rs. (fs(sweep_dir @ n := None)) (sweep_dir @ name) = Some rs \<and> rect rs \<and>
                 2 \<le> length rs \<and> 2 \<le> ncols rs"
    proof
      fix name assume m: "name \<in> set (pre @ post)"
      then have "name \<noteq> n" and "name \<in> set names" using h by auto
      then show "\<exists>rs. (fs(sweep_dir @ n := None)) (sweep_dir @ name) = Some rs \<and> rect rs \<and>
                 2 \<le> length rs \<and> 2 \<le> ncols rs" using assms by simp
    qed
    from sweep_valid [OF this]
    have "length (fst (sweep (fs(sweep_dir @ n := None)) (pre @ post))) =
          length (pre @ post)" by (simp only: fst_conv length_map)
    then show "length (fst (sweep (fs(sweep_dir @ n := None)) (pre @ post))) + 1 =
              length (map (?fig fs) names)" using h by simp
  qed
  show ?thesis
    apply (rule exI [of _ "map (?fig fs) names"])
    using v a b c d by (intro conjI) simp_all
qed


theorem sweep_one_figure_per_file_witness:
  "\<exists>figs. sweep (\<lambda>p. if p = sweep_dir @ ''a.txt'' then Some [[1, 2], [3, 4]]
                      else if p = sweep_dir @ ''b.txt'' then Some [[5, 6], [7, 8], [9, 10]]
                      else None) [''a.txt'', ''b.txt''] = (figs, None) \<and>
          length figs = length [''a.txt'', ''b.txt'']"
proof -
  have h: "\<forall>name \<in> set [''a.txt'', ''b.txt'']. \<exists>rows.
             (\<lambda>p. if p = sweep_dir @ ''a.txt'' then Some [[1, 2], [3, 4]]
                  else if p = sweep_dir @ ''b.txt'' then Some [[5, 6], [7, 8], [9, 10]]
                  else None) (sweep_dir @ name) = Some rows \<and> rect rows \<and>
             2 \<le> length rows \<and> 2 \<le> ncols rows"
    by (simp add: rect_def ncols_def)
  from sweep_one_figure_per_file [OF h] show ?thesis by blast
qed

lemma sweep_figure_narrow:
  assumes "fs (sweep_dir @ name) = Some rows" and "ncols rows < 2"
  shows "sweep_figure fs name =
         Inl (if list_ex (\<lambda>r. r = []) rows \<or> \<not> rect rows then ValueError else IndexError)"
  unfolding sweep_figure_def using assms by (rule loadtxt_narrow)

lemma fig1a_narrow:
  assumes "fs ''../data/death_model/simpledeath_1d_util.txt'' = Some rows" and "ncols rows < 2"
  shows "\<exists>e. fig1a col fs = Inl e"
proof (cases "list_ex (\<lambda>r. r = []) rows \<or> \<not> rect rows")
  case True
  then show ?thesis using assms(1) by (simp add: fig1a_def loadtxt_def)
next
  case False
  then have l: "loadtxt fs ''../data/death_model/simpledeath_1d_util.txt'' = Inr (squeeze rows)"
    using assms(1) by (simp add: loadtxt_def)
  have c: "column (squeeze rows) 0 = Inl IndexError"
    using column_squeeze_narrow [OF assms(2)] False by simp
  show ?thesis
  proof (cases "item col 0")
    case (Inl e)
    then show ?thesis by (simp add: fig1a_def l)
  next
    case (Inr c0)
    then show ?thesis by (simp add: fig1a_def l c)
  qed
qed

text \<open>
  Claim C7. A file with fewer than the two columns that the scatter of the sweep and the
  curve of figure 1a read makes the script stop with an error and draw nothing from that
  file: the sweep shows no figure for it nor for any later file, and figure 1a gets no
  curve. The error is that of the loader for a ragged table or an empty row, and
  otherwise the index error of \<^verbatim>\<open>x[:,0]\<close>.
\<close>

theorem too_few_columns_fail:
  "(fs (sweep_dir @ name) = Some rows \<and> ncols rows < 2 \<longrightarrow>
      sweep_figure fs name =
        Inl (if list_ex (\<lambda>r. r = []) rows \<or> \<not> rect rows then ValueError else IndexError) \<and>
      (\<exists>figs e. sweep fs (before @ name # after) = (figs, Some e) \<and>
                length figs \<le> length before)) \<and>
   (fs' ''../data/death_model/simpledeath_1d_util.txt'' = Some rows' \<and> ncols rows' < 2 \<longrightarrow>
      (\<exists>e. fig1a col fs' = Inl e))"
proof (intro conjI impI)
  assume h: "fs (sweep_dir @ name) = Some rows \<and> ncols rows < 2"
  then have a: "fs (sweep_dir @ name) = Some rows" and b: "ncols rows < 2" by simp_all
  show n: "sweep_figure fs name =
        Inl (if list_ex (\<lambda>r. r = []) rows \<or> \<not> rect rows then ValueError else IndexError)"
    using a b by (rule sweep_figure_narrow)
  show "\<exists>figs e. sweep fs (before @ name # after) = (figs, Some e) \<and>
                length figs \<le> length before"
    by (rule sweep_stops [OF n])
next
  assume "fs' ''../data/death_model/simpledeath_1d_util.txt'' = Some rows' \<and> ncols rows' < 2"
  then show "\<exists>e. fig1a col fs' = Inl e" using fig1a_narrow by blast
qed

theorem too_few_columns_fail_witness:
  "sweep_figure (\<lambda>p. Some [[1], [2]]) ''a.txt'' = Inl IndexError \<and>
   (\<exists>figs e. sweep (\<lambda>p. Some [[1], [2]]) ([] @ ''a.txt'' # [''b.txt'']) = (figs, Some e) \<and>
             length figs \<le> length ([] :: string list)) \<and>
   (\<exists>e. fig1a default_cycle (\<lambda>p. Some [[1], [2]]) = Inl e)"
proof -
  have h: "(\<lambda>p. Some [[1], [2 :: real]]) (sweep_dir @ ''a.txt'') = Some [[1], [2]] \<and>
           ncols [[1], [2 :: real]] < 2" by (simp add: ncols_def)
  have h': "(\<lambda>p. Some [[1], [2 :: real]]) ''../data/death_model/simpledeath_1d_util.txt'' =
              Some [[1], [2]] \<and> ncols [[1], [2 :: real]] < 2" by (simp add: ncols_def)
  have e: "(if list_ex (\<lambda>r. r = []) [[1], [2 :: real]] \<or> \<not> rect [[1], [2 :: real]]
            then ValueError else IndexError) = IndexError"
    by (simp add: rect_def ncols_def)
  note t = too_few_columns_fail [of "\<lambda>p. Some [[1], [2]]" "''a.txt''" "[[1], [2]]" "[]"
      "[''b.txt'']" "\<lambda>p. Some [[1], [2]]" "[[1], [2]]" default_cycle]
  have a: "sweep_figure (\<lambda>p. Some [[1], [2]]) ''a.txt'' = Inl IndexError"
    using t [THEN conjunct1, THEN mp, OF h, THEN conjunct1] by (simp only: e)
  have b: "\<exists>figs e. sweep (\<lambda>p. Some [[1], [2]]) ([] @ ''a.txt'' # [''b.txt'']) = (figs, Some e) \<and>
             length figs \<le> length ([] :: string list)"
    using t [THEN conjunct1, THEN mp, OF h, THEN conjunct2] .
  have c: "\<exists>e. fig1a default_cycle (\<lambda>p. Some [[1], [2]]) = Inl e"
    using t [THEN conjunct2, THEN mp, OF h'] .
  show ?thesis using a b c by (intro conjI)
qed

section \<open>Properties of the transformed data of a run\<close>

lemma loadtxt_cong: "fs p = fs' p \<Longrightarrow> loadtxt fs p = loadtxt fs' p"
  by (simp add: loadtxt_def)

text \<open>
  Claim C8. The transformed data of a run are a function of the contents of the input
  files alone: two runs of a script that find the same contents in the files it loads
  compute equal rescaled x-axes and equal threshold counts, whatever else differs between
  the two runs.
\<close>

theorem transforms_deterministic:
  "((\<forall>p \<in> set pk_inputs. fs p = fs' p) \<longrightarrow>
      pk_x_axes fs = pk_x_axes fs' \<and> pk_counts fs = pk_counts fs') \<and>
   ((\<forall>p \<in> set geo_inputs. gs p = gs' p) \<longrightarrow> geo_x_axes gs = geo_x_axes gs')"
proof (intro conjI impI)
  assume h: "\<forall>p \<in> set pk_inputs. fs p = fs' p"
  have a: "loadtxt fs ''../data/pk_model/ace_trace_18m.txt'' =
           loadtxt fs' ''../data/pk_model/ace_trace_18m.txt''"
    using h by (intro loadtxt_cong) (simp add: pk_inputs_def)
  have b: "loadtxt fs ''../data/pk_model/sgd_m1_trace_18m.txt'' =
           loadtxt fs' ''../data/pk_model/sgd_m1_trace_18m.txt''"
    using h by (intro loadtxt_cong) (simp add: pk_inputs_def)
  have c: "loadtxt fs ''../data/pk_model/sgd_m1_trace_first100k.txt'' =
           loadtxt fs' ''../data/pk_model/sgd_m1_trace_first100k.txt''"
    using h by (intro loadtxt_cong) (simp add: pk_inputs_def)
  have d: "loadtxt fs ''../data/pk_model/sgd_m10_trace_18m.txt'' =
           loadtxt fs' ''../data/pk_model/sgd_m10_trace_18m.txt''"
    using h by (intro loadtxt_cong) (simp add: pk_inputs_def)
  have e: "loadtxt fs ''../data/pk_model/sgd_m100_trace_18m.txt'' =
           loadtxt fs' ''../data/pk_model/sgd_m100_trace_18m.txt''"
    using h by (intro loadtxt_cong) (simp add: pk_inputs_def)
  have f: "loadtxt fs ''../data/pk_model/sgd_designs_18m.txt'' =
           loadtxt fs' ''../data/pk_model/sgd_designs_18m.txt''"
    using h by (intro loadtxt_cong) (simp add: pk_inputs_def)
  have g: "loadtxt fs ''../data/pk_model/sgd_designs_ph2_18m.txt'' =
           loadtxt fs' ''../data/pk_model/sgd_designs_ph2_18m.txt''"
    using h by (intro loadtxt_cong) (simp add: pk_inputs_def)
  show "pk_x_axes fs = pk_x_axes fs'" unfolding pk_x_axes_def by (simp only: a b c d e)
  show "pk_counts fs = pk_counts fs'" unfolding pk_counts_def by (simp only: f g)
next
  assume h: "\<forall>p \<in> set geo_inputs. gs p = gs' p"
  have a: "loadtxt gs ''../data/geo_model/sgd_traces.txt'' =
           loadtxt gs' ''../data/geo_model/sgd_traces.txt''"
    using h by (intro loadtxt_cong) (simp add: geo_inputs_def)
  have b: "loadtxt gs ''../data/geo_model/ace_traces.txt'' =
           loadtxt gs' ''../data/geo_model/ace_traces.txt''"
    using h by (intro loadtxt_cong) (simp add: geo_inputs_def)
  show "geo_x_axes gs = geo_x_axes gs'" unfolding geo_x_axes_def by (simp only: a b)
qed

theorem transforms_deterministic_witness:
  "pk_x_axes (\<lambda>p. Some [[1, 9], [3, 4]]) =
     pk_x_axes (\<lambda>p. if p = ''notes.txt'' then None else Some [[1, 9], [3, 4]]) \<and>
   pk_counts (\<lambda>p. Some [[1, 9], [3, 4]]) =
     pk_counts (\<lambda>p. if p = ''notes.txt'' then None else Some [[1, 9], [3, 4]]) \<and>
   geo_x_axes (\<lambda>p. Some [[1, 9], [3, 4]]) =
     geo_x_axes (\<lambda>p. if p = ''notes.txt'' then None else Some [[1, 9], [3, 4]]) \<and>
   pk_x_axes (\<lambda>p. Some [[1, 9], [3, 4]]) =
     [Inr [0, 18700000], Inr [0, 18700000], Inr [0, 100000],
      Inr [0, 18700000], Inr [0, 18700000], Inr [0, 18700000]] \<and>
   pk_counts (\<lambda>p. Some [[1, 9], [3, 4]]) = [Inr (Arr1 [0, 1]), Inr (Arr1 [0, 1])] \<and>
   geo_x_axes (\<lambda>p. Some [[1, 9], [3, 4]]) = [Inr [0, 50000], Inr [0, 85000]]"
proof -
  have h1: "\<forall>p \<in> set pk_inputs. (\<lambda>p. Some [[1, 9], [3, 4 :: real]]) p =
              (\<lambda>p. if p = ''notes.txt'' then None else Some [[1, 9], [3, 4]]) p"
    by (simp add: pk_inputs_def)
  have h2: "\<forall>p \<in> set geo_inputs. (\<lambda>p. Some [[1, 9], [3, 4 :: real]]) p =
              (\<lambda>p. if p = ''notes.txt'' then None else Some [[1, 9], [3, 4]]) p"
    by (simp add: geo_inputs_def)
  note t = transforms_deterministic [of "\<lambda>p. Some [[1, 9], [3, 4]]"
      "\<lambda>p. if p = ''notes.txt'' then None else Some [[1, 9], [3, 4]]"
      "\<lambda>p. Some [[1, 9], [3, 4]]"
      "\<lambda>p. if p = ''notes.txt'' then None else Some [[1, 9], [3, 4]]"]
  have a: "pk_x_axes (\<lambda>p. Some [[1, 9], [3, 4]]) =
     pk_x_axes (\<lambda>p. if p = ''notes.txt'' then None else Some [[1, 9], [3, 4]])"
    using t [THEN conjunct1, THEN mp, OF h1] by (rule conjunct1)
  have b: "pk_counts (\<lambda>p. Some [[1, 9], [3, 4]]) =
     pk_counts (\<lambda>p. if p = ''notes.txt'' then None else Some [[1, 9], [3, 4]])"
    using t [THEN conjunct1, THEN mp, OF h1] by (rule conjunct2)
  have c: "geo_x_axes (\<lambda>p. Some [[1, 9], [3, 4]]) =
     geo_x_axes (\<lambda>p. if p = ''notes.txt'' then None else Some [[1, 9], [3, 4]])"
    using t [THEN conjunct2, THEN mp, OF h2] .
  have l: "loadtxt (\<lambda>p. Some [[1, 9], [3, 4]]) q = Inr (Arr2 [[1, 9], [3, 4]])" for q
    by (simp add: loadtxt_def rect_def ncols_def squeeze_def)
  have l2: "np_linspace 0 b (Suc (Suc 0)) = [0, b]" for b
    by (simp add: np_linspace_def)
  have d: "pk_x_axes (\<lambda>p. Some [[1, 9], [3, 4]]) =
     [Inr [0, 18700000], Inr [0, 18700000], Inr [0, 100000],
      Inr [0, 18700000], Inr [0, 18700000], Inr [0, 18700000]]"
    by (simp add: pk_x_axes_def l x_ace18_def x_sgd18_def x_sgd1_first100k_def x_sgd1_def
        x_sgd10_def x_sgd100_def item_def ncols_def l2)
  have e: "pk_counts (\<lambda>p. Some [[1, 9], [3, 4]]) = [Inr (Arr1 [0, 1]), Inr (Arr1 [0, 1])]"
    by (simp add: pk_counts_def l num_at_8_2_def ncols_def upt_rec)
  have f: "geo_x_axes (\<lambda>p. Some [[1, 9], [3, 4]]) = [Inr [0, 50000], Inr [0, 85000]]"
    by (simp add: geo_x_axes_def l x_sgd_def x_ace_def l2)
  show ?thesis using a b c d e f by (intro conjI)
qed

section \<open>Properties of the arrays in memory\<close>

lemma bind_err_Inr: "bind_err m f = Inr y \<longleftrightarrow> (\<exists>x. m = Inr x \<and> f x = Inr y)"
  by (cases m) simp_all

lemma alloc_frame:
  assumes "alloc a h = (r, h')"
  shows "\<forall>i < used h. cells h' i = cells h i" and "used h' = used h + 1"
    and "addr r = used h" and "fetch h' r = a"
  using assms by (auto simp add: alloc_def fetch_def)

lemma load_frame:
  assumes "load fs p h = Inr (r, h')"
  shows "\<forall>i < used h. cells h' i = cells h i" and "used h' = used h + 1"
    and "addr r = used h" and "loadtxt fs p = Inr (fetch h' r)" and "\<not> transposed r"
  using assms by (auto simp add: load_def alloc_def fetch_def bind_err_Inr)

lemma fetch_frame:
  assumes "\<forall>i < n. cells h' i = cells h i" and "addr r < n"
  shows "fetch h' r = fetch h r"
  using assms by (simp add: fetch_def)









end
